theory Spec2Isabelle
  imports Complex_Main "HOL-Library.Sublist" "HOL-Library.Word"
begin

section \<open>Errors and Python primitives\<close>

text \<open>
  The exceptions that \<^verbatim>\<open>predict.py\<close> can raise in the code modelled here.
  A function that can raise returns \<open>error + 'a\<close>, with \<open>Inl\<close> for the exception.
  \<open>ExternalError\<close> stands for an exception raised inside a routine of another module.
\<close>

datatype error =
    ValueError
  | KeyError string
  | IndexError
  | ZeroDivisionError
  | UnboundLocalError
  | AttributeError
  | ExternalError

text \<open>
  Python's \<^verbatim>\<open>a in b\<close> on two strings: \<open>a\<close> occurs in \<open>b\<close> as a contiguous
  substring. \<open>startswith a b\<close> is \<^verbatim>\<open>b.startswith(a)\<close>.
\<close>

fun startswith :: "string \<Rightarrow> string \<Rightarrow> bool" where
  "startswith [] b = True"
| "startswith (x # a) [] = False"
| "startswith (x # a) (y # b) = (x = y \<and> startswith a b)"

fun str_in :: "string \<Rightarrow> string \<Rightarrow> bool" where
  "str_in a [] = (a = [])"
| "str_in a (y # b) = (startswith a (y # b) \<or> str_in a b)"

section \<open>Configuration\<close>

text \<open>
  \<^verbatim>\<open>SUPPORT_MODELS\<close> is a Python set; it is listed here in the order of the source.
  \<^verbatim>\<open>check_model\<close> iterates over it and returns at the first hit, so its outcome
  does not depend on the iteration order (\<open>check_model_loop_iff\<close> below).
\<close>

definition SUPPORT_MODELS :: "string list" where
  "SUPPORT_MODELS =
     [''YOLO'', ''SSD'', ''RetinaNet'', ''EfficientDet'', ''RCNN'', ''Face'', ''TTF'',
      ''FCOS'', ''SOLOv2'']"

text \<open>
  The parsed \<^verbatim>\<open>infer_cfg.yml\<close>. A key that is absent from the file is \<open>None\<close>;
  reading an absent required key raises \<^verbatim>\<open>KeyError\<close>. One preprocessing step is a
  dictionary with a \<^verbatim>\<open>type\<close> entry and the operator's own arguments \<open>'p\<close>.
\<close>

record 'p op_info =
  op_type :: string
  op_args :: 'p

record 'p yml_conf =
  y_arch :: "string option"
  y_Preprocess :: "'p op_info list option"
  y_use_python_inference :: "bool option"
  y_min_subgraph_size :: "int option"
  y_label_list :: "string list option"
  y_mask_resolution :: "int option"
  y_with_lmk :: "bool option"

record 'p config =
  arch :: string
  preprocess_infos :: "'p op_info list"
  use_python_inference :: bool
  min_subgraph_size :: int
  labels :: "string list"
  mask_resolution :: "int option"
  with_lmk :: "bool option"

text \<open>\<^verbatim>\<open>yml_conf[key]\<close>\<close>

definition subscript :: "string \<Rightarrow> 'a option \<Rightarrow> error + 'a" where
  "subscript key v = (case v of None \<Rightarrow> Inl (KeyError key) | Some x \<Rightarrow> Inr x)"

text \<open>
  \<^verbatim>\<open>Config.check_model\<close>: the loop over \<^verbatim>\<open>SUPPORT_MODELS\<close>, then the
  \<^verbatim>\<open>raise ValueError\<close> after it.
\<close>

fun check_model_loop :: "string list \<Rightarrow> 'p yml_conf \<Rightarrow> error + bool" where
  "check_model_loop [] yml = Inl ValueError"
| "check_model_loop (support_model # rest) yml =
     (case subscript ''arch'' (y_arch yml) of
        Inl e \<Rightarrow> Inl e
      | Inr a \<Rightarrow> if str_in support_model a then Inr True else check_model_loop rest yml)"

definition check_model :: "'p yml_conf \<Rightarrow> error + bool" where
  "check_model yml = check_model_loop SUPPORT_MODELS yml"

text \<open>
  \<^verbatim>\<open>Config.__init__\<close> after \<^verbatim>\<open>yaml.safe_load\<close>: the file access is outside the
  model, \<^verbatim>\<open>print_config\<close> only prints.
\<close>

definition Config_init :: "'p yml_conf \<Rightarrow> error + 'p config" where
  "Config_init yml =
     (case check_model yml of Inl e \<Rightarrow> Inl e | Inr _ \<Rightarrow>
      case subscript ''arch'' (y_arch yml) of Inl e \<Rightarrow> Inl e | Inr a \<Rightarrow>
      case subscript ''Preprocess'' (y_Preprocess yml) of Inl e \<Rightarrow> Inl e | Inr pre \<Rightarrow>
      case subscript ''use_python_inference'' (y_use_python_inference yml) of
        Inl e \<Rightarrow> Inl e | Inr upi \<Rightarrow>
      case subscript ''min_subgraph_size'' (y_min_subgraph_size yml) of
        Inl e \<Rightarrow> Inl e | Inr mss \<Rightarrow>
      case subscript ''label_list'' (y_label_list yml) of Inl e \<Rightarrow> Inl e | Inr ll \<Rightarrow>
        Inr \<lparr>arch = a, preprocess_infos = pre, use_python_inference = upi,
             min_subgraph_size = mss, labels = ll,
             mask_resolution = y_mask_resolution yml, with_lmk = y_with_lmk yml\<rparr>)"

section \<open>Image metadata and model inputs\<close>

text \<open>
  Modelled from the spec: the dictionary \<^verbatim>\<open>im_info\<close> is built by
  \<^verbatim>\<open>utils.preprocess\<close>, which is not part of the sources at hand. Following the
  data model of the specification (ImageMeta), it holds the origin shape \<open>(H, W)\<close>, the
  resize shape \<open>(H, W)\<close>, an optional pad shape \<open>(H, W)\<close> and the scale factors
  \<open>(scale_x, scale_y)\<close>. Shapes are Python integers, scale factors are floats.

  A floating-point number is modelled by the real number it denotes. Where the program
  compares a \<^verbatim>\<open>float32\<close> array with a Python scalar, the conversion of the scalar
  to \<^verbatim>\<open>float32\<close> is part of the model (\<open>to_float32\<close> below). The rounding of
  the values stored by \<^verbatim>\<open>astype('float32')\<close> and of the products written by
  \<^verbatim>\<open>*=\<close> is not.
\<close>

record im_info =
  origin_shape :: "int \<times> int"
  resize_shape :: "int \<times> int"
  pad_shape :: "(int \<times> int) option"
  scale :: "real \<times> real"

text \<open>
  The arrays that \<^verbatim>\<open>create_inputs\<close> puts into the input dictionary: the image
  tensor \<open>'im\<close> as it comes from the preprocessing, a two-dimensional \<^verbatim>\<open>int32\<close>
  array, and one- and two-dimensional \<^verbatim>\<open>float32\<close> arrays.
\<close>

datatype 'im tensor =
    Image 'im
  | Int32 "32 word list list"
  | Float32 "real list list"
  | Float32_1d "real list"

text \<open>\<^verbatim>\<open>list(t)\<close> of a pair.\<close>

definition list_of :: "'a \<times> 'a \<Rightarrow> 'a list" where
  "list_of t = [fst t, snd t]"

text \<open>
  \<^verbatim>\<open>list(im_info['pad_shape']) if im_info['pad_shape'] is not None else
  list(im_info['resize_shape'])\<close>
\<close>

definition pad_shape_or_resize :: "im_info \<Rightarrow> int list" where
  "pad_shape_or_resize info =
     (case pad_shape info of Some p \<Rightarrow> list_of p | None \<Rightarrow> list_of (resize_shape info))"

text \<open>
  \<^verbatim>\<open>create_inputs\<close>. The dictionary \<^verbatim>\<open>inputs\<close> is a map from the input name;
  \<^verbatim>\<open>astype('int32')\<close> wraps around as the C conversion does.
\<close>

definition create_inputs :: "'im \<Rightarrow> im_info \<Rightarrow> string \<Rightarrow> (string \<rightharpoonup> 'im tensor)" where
  "create_inputs im info model_arch =
     (let inputs = Map.empty;
          inputs = inputs(''image'' \<mapsto> Image im);
          origin_shape = list_of (origin_shape info);
          resize_shape = list_of (resize_shape info);
          pad_shape = pad_shape_or_resize info;
          scale_x = fst (scale info);
          scale_y = snd (scale info)
      in if str_in ''YOLO'' model_arch then
           let im_size = Int32 [map word_of_int origin_shape]
           in inputs(''im_size'' \<mapsto> im_size)
         else if str_in ''RetinaNet'' model_arch \<or> str_in ''EfficientDet'' model_arch then
           let scale = scale_x;
               im_info = Float32 [map of_int pad_shape @ [scale]]
           in inputs(''im_info'' \<mapsto> im_info)
         else if str_in ''RCNN'' model_arch \<or> str_in ''FCOS'' model_arch then
           let scale = scale_x;
               im_info = Float32 [map of_int pad_shape @ [scale]];
               im_shape = Float32 [map of_int origin_shape @ [1]];
               inputs = inputs(''im_info'' \<mapsto> im_info)
           in inputs(''im_shape'' \<mapsto> im_shape)
         else if str_in ''TTF'' model_arch then
           let scale_factor = Float32_1d (concat (replicate 2 [scale_x, scale_y]))
           in inputs(''scale_factor'' \<mapsto> scale_factor)
         else if str_in ''SOLOv2'' model_arch then
           let scale = scale_x;
               im_info = Float32 [map of_int resize_shape @ [scale]]
           in inputs(''im_info'' \<mapsto> im_info)
         else inputs)"

section \<open>Arrays\<close>

text \<open>
  A two-dimensional \<^verbatim>\<open>numpy\<close> array of floats, of shape \<open>(length rows, ncols)\<close>:
  the raw boxes tensor \<^verbatim>\<open>np_boxes\<close>, documented in \<^verbatim>\<open>Detector.predict\<close> as of
  shape \<open>[N, 6]\<close> with rows \<open>[class, score, x_min, y_min, x_max, y_max]\<close>. The number of
  columns is kept free, so that the one-element array that the model returns when it
  detects nothing, and arrays with too few columns, are inputs of the model as well.
  The array is well formed when every row has \<open>ncols\<close> entries.
\<close>

record ndarray =
  ncols :: nat
  rows :: "real list list"

definition wf_ndarray :: "ndarray \<Rightarrow> bool" where
  "wf_ndarray a = list_all (\<lambda>r. length r = ncols a) (rows a)"

text \<open>\<^verbatim>\<open>a[:, j]\<close>: \<^verbatim>\<open>IndexError\<close> when the array has no column \<open>j\<close>.\<close>

definition column :: "ndarray \<Rightarrow> nat \<Rightarrow> error + real list" where
  "column a j = (if j < ncols a then Inr (map (\<lambda>r. r ! j) (rows a)) else Inl IndexError)"

text \<open>\<^verbatim>\<open>a[:, j] *= v\<close>, in place: the result is the array object after the statement.\<close>

definition imul_column :: "ndarray \<Rightarrow> nat \<Rightarrow> real \<Rightarrow> error + ndarray" where
  "imul_column a j v =
     (if j < ncols a then Inr (a\<lparr>rows := map (\<lambda>r. r[j := r ! j * v]) (rows a)\<rparr>)
      else Inl IndexError)"

text \<open>
  A sequence of such statements. The first that raises ends the sequence, and the
  columns written before it stay written.
\<close>

fun imul_columns :: "(nat \<times> real) list \<Rightarrow> ndarray \<Rightarrow> ndarray \<times> error option" where
  "imul_columns [] a = (a, None)"
| "imul_columns ((j, v) # js) a =
     (case imul_column a j v of
        Inl e \<Rightarrow> (a, Some e)
      | Inr a' \<Rightarrow> imul_columns js a')"

text \<open>
  The conversion of a Python scalar to \<^verbatim>\<open>float32\<close> (IEEE 754 binary32): the
  nearest value \<open>m * 2 ^ q\<close> with \<open>\<bar>m\<bar> < 2 ^ 24\<close> and \<open>- 149 \<le> q\<close>, a tie going
  to the even \<open>m\<close>, and an infinity from \<open>2 ^ 128 - 2 ^ 103\<close> on. \<open>f32_exponent 253 a\<close>
  is the binary exponent of \<open>a\<close>, kept between \<open>- 126\<close> and \<open>127\<close>.
\<close>

definition pow2 :: "int \<Rightarrow> real" where
  "pow2 e = (if 0 \<le> e then 2 ^ nat e else 1 / 2 ^ nat (- e))"

fun f32_exponent :: "nat \<Rightarrow> real \<Rightarrow> int" where
  "f32_exponent 0 a = - 126"
| "f32_exponent (Suc n) a =
     (if pow2 (int n - 125) \<le> a then int n - 125 else f32_exponent n a)"

definition round_half_even :: "real \<Rightarrow> int" where
  "round_half_even y =
     (let f = \<lfloor>y\<rfloor>; d = y - of_int f
      in if d < 1 / 2 then f else if 1 / 2 < d then f + 1 else if even f then f else f + 1)"

datatype float32 = NegInf | Finite real | PosInf

definition to_float32 :: "real \<Rightarrow> float32" where
  "to_float32 x =
     (let e = f32_exponent 253 \<bar>x\<bar>;
          q = pow2 (e - 23);
          m = round_half_even (x / q)
      in if e = 127 \<and> 2 ^ 24 \<le> \<bar>m\<bar> then (if x < 0 then NegInf else PosInf)
         else Finite (of_int m * q))"

text \<open>
  \<^verbatim>\<open>xs > t\<close>, element by element, for a column \<open>xs\<close> of a \<^verbatim>\<open>float32\<close> array
  and a Python scalar \<open>t\<close>: numpy converts \<open>t\<close> to \<^verbatim>\<open>float32\<close> and compares in that
  type. \<^verbatim>\<open>p & q\<close>, element by element.
\<close>

definition greater :: "real list \<Rightarrow> real \<Rightarrow> bool list" where
  "greater xs t =
     (case to_float32 t of
        Finite t' \<Rightarrow> map (\<lambda>x. t' < x) xs
      | PosInf \<Rightarrow> map (\<lambda>x. False) xs
      | NegInf \<Rightarrow> map (\<lambda>x. True) xs)"

definition logical_and :: "bool list \<Rightarrow> bool list \<Rightarrow> bool list" where
  "logical_and ps qs = map2 (\<and>) ps qs"

text \<open>
  \<^verbatim>\<open>a[mask, ...]\<close> with a boolean mask on the first axis: a new array of the entries
  whose mask is true; \<^verbatim>\<open>IndexError\<close> when the mask has another length than the axis.
\<close>

definition take_rows :: "bool list \<Rightarrow> 'a list \<Rightarrow> error + 'a list" where
  "take_rows sel xs =
     (if length sel = length xs then Inr (map snd (filter fst (zip sel xs)))
      else Inl IndexError)"

section \<open>The detector\<close>

text \<open>
  The array objects that the caller hands to \<^verbatim>\<open>postprocess\<close>, as a store:
  \<^verbatim>\<open>postprocess\<close> returns it as the call leaves it. The masks tensor is a list of
  its first-axis entries \<open>'m\<close> (one block of shape
  \<open>[class_num, mask_resolution, mask_resolution]\<close> per raw box).
\<close>

record 'm arrays =
  np_boxes :: ndarray
  np_masks :: "'m list option"

text \<open>
  The dictionary \<^verbatim>\<open>results\<close> of \<^verbatim>\<open>postprocess\<close>: the key \<^verbatim>\<open>landmark\<close> is
  present when \<^verbatim>\<open>np_lmk\<close> is not \<^verbatim>\<open>None\<close>, the key \<^verbatim>\<open>masks\<close> when
  \<^verbatim>\<open>np_masks\<close> is not \<^verbatim>\<open>None\<close>.
\<close>

record ('m, 'l) results =
  landmark :: "'l option"
  boxes :: ndarray
  masks :: "'m list option"

text \<open>
  The loop that prints the kept boxes formats the entries 0 to 5 of each row, so it
  raises \<^verbatim>\<open>IndexError\<close> on a kept row of an array with fewer than six columns.
  What it prints is not part of the model.
\<close>

definition print_boxes :: "ndarray \<Rightarrow> error + unit" where
  "print_boxes a = (if rows a \<noteq> [] \<and> ncols a < 6 then Inl IndexError else Inr ())"

text \<open>
  \<^verbatim>\<open>Detector.postprocess\<close>. The landmark decoder \<^verbatim>\<open>lmk2out\<close> comes from
  \<^verbatim>\<open>utils.visualize\<close>, outside the sources at hand: it is a parameter, a function
  of its arguments that returns a value or raises and writes to none of the arrays.
  \<open>'k\<close> is the landmark triple \<^verbatim>\<open>np_lmk\<close>.

  The first component of the result is the store after the call, the second what the
  call returns or raises.
\<close>

definition postprocess ::
  "'p config \<Rightarrow> (ndarray \<Rightarrow> 'k \<Rightarrow> im_info \<Rightarrow> real \<Rightarrow> error + 'l) \<Rightarrow>
   'm arrays \<Rightarrow> 'k option \<Rightarrow> im_info \<Rightarrow> real \<Rightarrow>
   'm arrays \<times> (error + ('m, 'l) results)" where
  "postprocess config lmk2out args np_lmk info threshold =
     (case (case np_lmk of
              None \<Rightarrow> Inr None
            | Some k \<Rightarrow> map_sum id Some (lmk2out (np_boxes args) k info threshold)) of
        Inl e \<Rightarrow> (args, Inl e)
      | Inr lmk \<Rightarrow>
        let (scaled, raised) =
              (if arch config \<in> set [''SSD'', ''Face''] then
                 let (w, h) = origin_shape info
                 in imul_columns [(2, of_int h), (3, of_int w), (4, of_int h), (5, of_int w)]
                      (np_boxes args)
               else (np_boxes args, None));
            args' = args\<lparr>np_boxes := scaled\<rparr>
        in case raised of
             Some e \<Rightarrow> (args', Inl e)
           | None \<Rightarrow>
             (args',
              case column scaled 1 of Inl e \<Rightarrow> Inl e | Inr scores \<Rightarrow>
              case column scaled 0 of Inl e \<Rightarrow> Inl e | Inr classes \<Rightarrow>
              let expect_boxes = logical_and (greater scores threshold) (greater classes (- 1))
              in case take_rows expect_boxes (rows scaled) of Inl e \<Rightarrow> Inl e | Inr kept \<Rightarrow>
                 let new_boxes = \<lparr>ncols = ncols scaled, rows = kept\<rparr>
                 in case print_boxes new_boxes of Inl e \<Rightarrow> Inl e | Inr _ \<Rightarrow>
                    (case np_masks args of
                       None \<Rightarrow> Inr \<lparr>landmark = lmk, boxes = new_boxes, masks = None\<rparr>
                     | Some ms \<Rightarrow>
                       (case take_rows expect_boxes ms of
                          Inl e \<Rightarrow> Inl e
                        | Inr new_masks \<Rightarrow>
                            Inr \<lparr>landmark = lmk, boxes = new_boxes,
                                 masks = Some new_masks\<rparr>))))"

text \<open>
  The end of \<^verbatim>\<open>Detector.predict\<close>, after the backend has run and the raw arrays
  have been fetched: \<^verbatim>\<open>[]\<close> in benchmark mode, the dictionary
  \<^verbatim>\<open>{'boxes': np.array([])}\<close> when the boxes array has fewer than six elements,
  the results of \<^verbatim>\<open>postprocess\<close> otherwise. \<^verbatim>\<open>np_boxes\<close> is \<open>None\<close> when no run
  has assigned it; reading its shape then raises \<^verbatim>\<open>AttributeError\<close>.
\<close>

datatype ('m, 'l) predict_result =
    NoResults
  | EmptyBoxes
  | Results "('m, 'l) results"

definition predict_results ::
  "'p config \<Rightarrow> (ndarray \<Rightarrow> 'k \<Rightarrow> im_info \<Rightarrow> real \<Rightarrow> error + 'l) \<Rightarrow>
   ndarray option \<Rightarrow> 'm list option \<Rightarrow> 'k option \<Rightarrow> im_info \<Rightarrow> real \<Rightarrow> bool \<Rightarrow>
   error + ('m, 'l) predict_result" where
  "predict_results config lmk2out boxes_opt masks_opt np_lmk info threshold run_benchmark =
     (if \<not> run_benchmark then
        case boxes_opt of
          None \<Rightarrow> Inl AttributeError
        | Some b \<Rightarrow>
            if length (rows b) * ncols b < 6 then Inr EmptyBoxes
            else map_sum id Results
                   (snd (postprocess config lmk2out \<lparr>np_boxes = b, np_masks = masks_opt\<rparr>
                           np_lmk info threshold))
      else Inr NoResults)"

text \<open>The rows of the \<^verbatim>\<open>boxes\<close> entry of what \<^verbatim>\<open>predict\<close> returns, if it has one.\<close>

fun result_boxes :: "('m, 'l) predict_result \<Rightarrow> real list list option" where
  "result_boxes NoResults = None"
| "result_boxes EmptyBoxes = Some []"
| "result_boxes (Results r) = Some (rows (boxes r))"

section \<open>The execution backends\<close>

text \<open>
  \<^verbatim>\<open>load_predictor\<close> configures an \<^verbatim>\<open>AnalysisConfig\<close> and creates the predictor
  from it. The inference library is outside the model: the predictor is represented by
  the sequence of configuration calls made before it is created. The model directory
  only names the two files and is left out.
\<close>

datatype precision = Precision_Int8 | Precision_Float32 | Precision_Half

record tensorrt_engine =
  workspace_size :: nat
  max_batch_size :: int
  trt_min_subgraph_size :: int
  precision_mode :: precision
  use_static :: bool
  use_calib_mode :: bool

datatype config_call =
    Enable_use_gpu nat nat
  | Switch_ir_optim bool
  | Set_cpu_math_library_num_threads nat
  | Enable_tensorrt_engine tensorrt_engine
  | Disable_glog_info
  | Enable_memory_optim
  | Switch_use_feed_fetch_ops bool

definition precision_map :: "(string \<times> precision) list" where
  "precision_map =
     [(''trt_int8'', Precision_Int8),
      (''trt_fp32'', Precision_Float32),
      (''trt_fp16'', Precision_Half)]"

definition load_predictor :: "string \<Rightarrow> int \<Rightarrow> bool \<Rightarrow> int \<Rightarrow> error + config_call list" where
  "load_predictor run_mode batch_size use_gpu min_subgraph =
     (if \<not> use_gpu \<and> \<not> run_mode = ''fluid'' then Inl ValueError
      else if run_mode = ''trt_int8'' then Inl ValueError
      else Inr
        ((if use_gpu then [Enable_use_gpu 100 0, Switch_ir_optim True]
          else [Set_cpu_math_library_num_threads 16])
         @ (case map_of precision_map run_mode of
              Some p \<Rightarrow>
                [Enable_tensorrt_engine
                   \<lparr>workspace_size = push_bit 10 1, max_batch_size = batch_size,
                    trt_min_subgraph_size = min_subgraph, precision_mode = p,
                    use_static = False, use_calib_mode = False\<rparr>]
            | None \<Rightarrow> [])
         @ [Disable_glog_info, Enable_memory_optim, Switch_use_feed_fetch_ops False]))"

text \<open>\<^verbatim>\<open>load_executor\<close>: the place of the executor; loading the model is external.\<close>

datatype place = CUDAPlace nat | CPUPlace

definition load_executor :: "bool \<Rightarrow> place" where
  "load_executor use_gpu = (if use_gpu then CUDAPlace 0 else CPUPlace)"

text \<open>
  \<^verbatim>\<open>Detector.__init__\<close>: the backend that the detector holds. \<^verbatim>\<open>load_predictor\<close>
  is called with its default batch size 1.
\<close>

datatype backend = Executor place | Predictor "config_call list"

definition Detector_init :: "'p config \<Rightarrow> bool \<Rightarrow> string \<Rightarrow> error + backend" where
  "Detector_init config use_gpu run_mode =
     (if use_python_inference config then Inr (Executor (load_executor use_gpu))
      else map_sum id Predictor
             (load_predictor run_mode 1 use_gpu (min_subgraph_size config)))"

section \<open>Running the backend and fetching the raw outputs\<close>

text \<open>
  One run of the model on the prepared inputs yields its output tensors \<open>outs\<close>, in the
  order of the fetch targets (executor) or of the output names (predictor). The tensors
  are kept abstract (\<open>'t\<close>); a run is taken to return the same tensors each time and
  not to raise. \<open>item xs i\<close> is \<^verbatim>\<open>xs[i]\<close>.
\<close>

definition item :: "'a list \<Rightarrow> nat \<Rightarrow> error + 'a" where
  "item xs i = (if i < length xs then Inr (xs ! i) else Inl IndexError)"

text \<open>The local variables \<^verbatim>\<open>np_boxes\<close>, \<^verbatim>\<open>np_masks\<close>, \<^verbatim>\<open>np_lmk\<close> of \<^verbatim>\<open>Detector.predict\<close>.\<close>

record 't raw_outputs =
  raw_boxes :: "'t option"
  raw_masks :: "'t option"
  raw_lmk :: "('t \<times> 't \<times> 't) option"

text \<open>
  The executor branch of \<^verbatim>\<open>Detector.predict\<close>: \<open>warmup\<close> runs, then \<open>repeats\<close>
  timed runs, each assigning \<^verbatim>\<open>outs\<close>; the average time divides by \<open>repeats\<close>;
  then the boxes are read from \<^verbatim>\<open>outs[0]\<close> and, when the configuration has a mask
  resolution, the masks from \<^verbatim>\<open>outs[1]\<close>. \<^verbatim>\<open>range(n)\<close> runs \<open>nat n\<close> times.
\<close>

fun executor_loop :: "nat \<Rightarrow> 't list \<Rightarrow> 't list option \<Rightarrow> 't list option" where
  "executor_loop 0 run_outs outs = outs"
| "executor_loop (Suc n) run_outs outs = executor_loop n run_outs (Some run_outs)"

definition predict_executor :: "'p config \<Rightarrow> 't list \<Rightarrow> int \<Rightarrow> int \<Rightarrow> error + 't raw_outputs" where
  "predict_executor config run_outs warmup repeats =
     (let outs = executor_loop (nat warmup) run_outs None;
          outs = executor_loop (nat repeats) run_outs outs
      in if repeats = 0 then Inl ZeroDivisionError
         else case outs of
           None \<Rightarrow> Inl UnboundLocalError
         | Some outs \<Rightarrow>
           (case item outs 0 of Inl e \<Rightarrow> Inl e | Inr b \<Rightarrow>
            if mask_resolution config \<noteq> None then
              (case item outs 1 of
                 Inl e \<Rightarrow> Inl e
               | Inr m \<Rightarrow> Inr \<lparr>raw_boxes = Some b, raw_masks = Some m, raw_lmk = None\<rparr>)
            else Inr \<lparr>raw_boxes = Some b, raw_masks = None, raw_lmk = None\<rparr>))"

text \<open>
  The predictor branch. Copying the inputs into the predictor is outside the model.
  The body of both of its loops, after \<^verbatim>\<open>zero_copy_run\<close>:
  the boxes from output 0, the masks from output 1 when the configuration has a mask
  resolution, and the landmark triple from the outputs 1, 2 and 3 when \<^verbatim>\<open>with_lmk\<close>
  is \<^verbatim>\<open>True\<close>.
\<close>

definition fetch_outputs :: "'p config \<Rightarrow> 't list \<Rightarrow> 't raw_outputs \<Rightarrow> error + 't raw_outputs" where
  "fetch_outputs config outs vars =
     (case item outs 0 of Inl e \<Rightarrow> Inl e | Inr b \<Rightarrow>
      let vars = vars\<lparr>raw_boxes := Some b\<rparr>
      in case (if mask_resolution config \<noteq> None then
                 map_sum id (\<lambda>m. vars\<lparr>raw_masks := Some m\<rparr>) (item outs 1)
               else Inr vars) of
           Inl e \<Rightarrow> Inl e
         | Inr vars \<Rightarrow>
           if with_lmk config \<noteq> None \<and> with_lmk config = Some True then
             case item outs 1 of Inl e \<Rightarrow> Inl e | Inr face_index \<Rightarrow>
             case item outs 2 of Inl e \<Rightarrow> Inl e | Inr landmark_t \<Rightarrow>
             case item outs 3 of Inl e \<Rightarrow> Inl e | Inr prior_boxes \<Rightarrow>
               Inr (vars\<lparr>raw_lmk := Some (face_index, landmark_t, prior_boxes)\<rparr>)
           else Inr vars)"

fun predictor_loop ::
  "nat \<Rightarrow> 'p config \<Rightarrow> 't list \<Rightarrow> 't raw_outputs \<Rightarrow> error + 't raw_outputs" where
  "predictor_loop 0 config outs vars = Inr vars"
| "predictor_loop (Suc n) config outs vars =
     (case fetch_outputs config outs vars of
        Inl e \<Rightarrow> Inl e
      | Inr vars' \<Rightarrow> predictor_loop n config outs vars')"

definition predict_predictor :: "'p config \<Rightarrow> 't list \<Rightarrow> int \<Rightarrow> int \<Rightarrow> error + 't raw_outputs" where
  "predict_predictor config outs warmup repeats =
     (case predictor_loop (nat warmup) config outs
             \<lparr>raw_boxes = None, raw_masks = None, raw_lmk = None\<rparr> of
        Inl e \<Rightarrow> Inl e
      | Inr vars \<Rightarrow>
        (case predictor_loop (nat repeats) config outs vars of
           Inl e \<Rightarrow> Inl e
         | Inr vars \<Rightarrow> if repeats = 0 then Inl ZeroDivisionError else Inr vars))"

text \<open>The two branches of \<^verbatim>\<open>Detector.predict\<close>, up to the fetched arrays.\<close>

definition predict_fetch :: "'p config \<Rightarrow> 't list \<Rightarrow> int \<Rightarrow> int \<Rightarrow> error + 't raw_outputs" where
  "predict_fetch config outs warmup repeats =
     (if use_python_inference config then predict_executor config outs warmup repeats
      else predict_predictor config outs warmup repeats)"

section \<open>The SOLOv2 detector\<close>

text \<open>
  \<^verbatim>\<open>DetectorSOLOv2.predict\<close>: its local variables, its two backend branches and what
  it returns, \<^verbatim>\<open>[]\<close> in benchmark mode and the dictionary of the three raw arrays
  otherwise. The threshold is a parameter of the method.
\<close>

record 't solov2_outputs =
  np_label :: "'t option"
  np_score :: "'t option"
  np_segms :: "'t option"

datatype 't solov2_result =
    SOLOv2_no_results
  | SOLOv2_dict (segm: "'t option") (label: "'t option") (score: "'t option")

definition solov2_executor :: "'t list \<Rightarrow> int \<Rightarrow> int \<Rightarrow> error + 't solov2_outputs" where
  "solov2_executor run_outs warmup repeats =
     (let outs = executor_loop (nat warmup) run_outs None;
          outs = executor_loop (nat repeats) run_outs outs
      in if repeats = 0 then Inl ZeroDivisionError
         else case outs of
           None \<Rightarrow> Inl UnboundLocalError
         | Some outs \<Rightarrow>
           (case item outs 0 of Inl e \<Rightarrow> Inl e | Inr l \<Rightarrow>
            case item outs 1 of Inl e \<Rightarrow> Inl e | Inr s \<Rightarrow>
            case item outs 2 of Inl e \<Rightarrow> Inl e | Inr g \<Rightarrow>
              Inr \<lparr>np_label = Some l, np_score = Some s, np_segms = Some g\<rparr>))"

definition solov2_fetch_outputs :: "'t list \<Rightarrow> 't solov2_outputs \<Rightarrow> error + 't solov2_outputs" where
  "solov2_fetch_outputs outs vars =
     (case item outs 0 of Inl e \<Rightarrow> Inl e | Inr l \<Rightarrow>
      case item outs 1 of Inl e \<Rightarrow> Inl e | Inr s \<Rightarrow>
      case item outs 2 of Inl e \<Rightarrow> Inl e | Inr g \<Rightarrow>
        Inr (vars\<lparr>np_label := Some l, np_score := Some s, np_segms := Some g\<rparr>))"

fun solov2_predictor_loop ::
  "nat \<Rightarrow> 't list \<Rightarrow> 't solov2_outputs \<Rightarrow> error + 't solov2_outputs" where
  "solov2_predictor_loop 0 outs vars = Inr vars"
| "solov2_predictor_loop (Suc n) outs vars =
     (case solov2_fetch_outputs outs vars of
        Inl e \<Rightarrow> Inl e
      | Inr vars' \<Rightarrow> solov2_predictor_loop n outs vars')"

definition solov2_predictor :: "'t list \<Rightarrow> int \<Rightarrow> int \<Rightarrow> error + 't solov2_outputs" where
  "solov2_predictor outs warmup repeats =
     (case solov2_predictor_loop (nat warmup) outs
             \<lparr>np_label = None, np_score = None, np_segms = None\<rparr> of
        Inl e \<Rightarrow> Inl e
      | Inr vars \<Rightarrow>
        (case solov2_predictor_loop (nat repeats) outs vars of
           Inl e \<Rightarrow> Inl e
         | Inr vars \<Rightarrow> if repeats = 0 then Inl ZeroDivisionError else Inr vars))"

definition DetectorSOLOv2_predict ::
  "'p config \<Rightarrow> 't list \<Rightarrow> real \<Rightarrow> int \<Rightarrow> int \<Rightarrow> bool \<Rightarrow> error + 't solov2_result" where
  "DetectorSOLOv2_predict config outs threshold warmup repeats run_benchmark =
     (case (if use_python_inference config then solov2_executor outs warmup repeats
            else solov2_predictor outs warmup repeats) of
        Inl e \<Rightarrow> Inl e
      | Inr vars \<Rightarrow>
          if \<not> run_benchmark then
            Inr (SOLOv2_dict (np_segms vars) (np_label vars) (np_score vars))
          else Inr SOLOv2_no_results)"

section \<open>Properties of the configuration\<close>

lemma startswith_iff: "startswith a b \<longleftrightarrow> (\<exists>s. b = a @ s)"
  by (induction a b rule: startswith.induct) auto

lemma str_in_iff: "str_in a b \<longleftrightarrow> (\<exists>p s. b = p @ a @ s)"
proof (induction b)
  case Nil
  then show ?case by auto
next
  case (Cons y b)
  show ?case
  proof
    assume "str_in a (y # b)"
    then consider "startswith a (y # b)" | "str_in a b" by auto
    then show "\<exists>p s. y # b = p @ a @ s"
    proof cases
      case 1
      then obtain s where "y # b = a @ s" by (auto simp: startswith_iff)
      then have "y # b = [] @ a @ s" by simp
      then show ?thesis by blast
    next
      case 2
      then obtain p s where "b = p @ a @ s" using Cons.IH by blast
      then have "y # b = (y # p) @ a @ s" by simp
      then show ?thesis by blast
    qed
  next
    assume "\<exists>p s. y # b = p @ a @ s"
    then obtain p s where eq: "y # b = p @ a @ s" by blast
    show "str_in a (y # b)"
    proof (cases p)
      case Nil
      with eq have "startswith a (y # b)" by (auto simp: startswith_iff)
      then show ?thesis by simp
    next
      case (Cons z q)
      with eq have "b = q @ a @ s" by simp
      then have "str_in a b" using Cons.IH by blast
      then show ?thesis by simp
    qed
  qed
qed

lemma str_in_sublist: "str_in a b \<longleftrightarrow> sublist a b"
  by (simp add: str_in_iff sublist_def)

lemma check_model_loop_iff:
  "check_model_loop ms yml = Inr r \<longleftrightarrow>
     r \<and> (\<exists>a. y_arch yml = Some a \<and> (\<exists>m \<in> set ms. str_in m a))"
  by (induction ms) (auto simp: subscript_def split: option.splits)

lemma check_model_loop_error:
  "y_arch yml = Some a \<Longrightarrow> \<not> (\<exists>m \<in> set ms. str_in m a) \<Longrightarrow>
     check_model_loop ms yml = Inl ValueError"
  by (induction ms) (auto simp: subscript_def)

text \<open>
  Claim C4. For every architecture string, in a configuration file that has the other
  required keys, the construction of \<^verbatim>\<open>Config\<close> succeeds if and only if the string
  contains one of the registered family names YOLO, SSD, RetinaNet, EfficientDet, RCNN,
  Face, TTF, FCOS, SOLOv2 as a contiguous substring, and it raises \<^verbatim>\<open>ValueError\<close>
  otherwise. The match is containment, so a suffixed name is accepted.
\<close>

theorem Config_init_iff_family:
  fixes yml :: "'p yml_conf"
  assumes "y_arch yml = Some a"
    and "y_Preprocess yml = Some pre"
    and "y_use_python_inference yml = Some upi"
    and "y_min_subgraph_size yml = Some mss"
    and "y_label_list yml = Some ll"
  shows "((\<exists>cfg. Config_init yml = Inr cfg) \<longleftrightarrow>
            (\<exists>m \<in> set SUPPORT_MODELS. \<exists>p s. a = p @ m @ s))
       \<and> (\<not> (\<exists>m \<in> set SUPPORT_MODELS. \<exists>p s. a = p @ m @ s) \<longrightarrow>
            Config_init yml = Inl ValueError)
       \<and> ((\<exists>m \<in> set SUPPORT_MODELS. \<exists>p s. a = p @ m @ s) \<longrightarrow>
            Config_init yml =
              Inr \<lparr>arch = a, preprocess_infos = pre, use_python_inference = upi,
                   min_subgraph_size = mss, labels = ll,
                   mask_resolution = y_mask_resolution yml, with_lmk = y_with_lmk yml\<rparr>)"
proof (cases "\<exists>m \<in> set SUPPORT_MODELS. str_in m a")
  case True
  then have "check_model yml = Inr True"
    using assms(1) by (simp add: check_model_def check_model_loop_iff)
  then have "Config_init yml =
      Inr \<lparr>arch = a, preprocess_infos = pre, use_python_inference = upi,
           min_subgraph_size = mss, labels = ll,
           mask_resolution = y_mask_resolution yml, with_lmk = y_with_lmk yml\<rparr>"
    using assms by (simp add: Config_init_def subscript_def)
  with True show ?thesis by (simp add: str_in_iff)
next
  case False
  then have "check_model yml = Inl ValueError"
    using assms(1) check_model_loop_error [of yml a SUPPORT_MODELS]
    by (simp add: check_model_def)
  then have "Config_init yml = Inl ValueError"
    by (simp add: Config_init_def)
  with False show ?thesis by (simp add: str_in_iff)
qed

theorem Config_init_iff_family_witness:
  "Config_init \<lparr>y_arch = Some ''YOLOv3_darknet'', y_Preprocess = Some ([] :: unit op_info list),
       y_use_python_inference = Some False, y_min_subgraph_size = Some 3,
       y_label_list = Some [''digit''], y_mask_resolution = None, y_with_lmk = None\<rparr>
     = Inr \<lparr>arch = ''YOLOv3_darknet'', preprocess_infos = [], use_python_inference = False,
            min_subgraph_size = 3, labels = [''digit''], mask_resolution = None,
            with_lmk = None\<rparr>
   \<and> Config_init \<lparr>y_arch = Some ''CenterNet'', y_Preprocess = Some ([] :: unit op_info list),
       y_use_python_inference = Some False, y_min_subgraph_size = Some 3,
       y_label_list = Some [''digit''], y_mask_resolution = None, y_with_lmk = None\<rparr>
     = Inl ValueError"
proof -
  have yes: "\<exists>m \<in> set SUPPORT_MODELS. \<exists>p s. ''YOLOv3_darknet'' = p @ m @ s"
    by (simp add: SUPPORT_MODELS_def str_in_iff [symmetric])
  have no: "\<not> (\<exists>m \<in> set SUPPORT_MODELS. \<exists>p s. ''CenterNet'' = p @ m @ s)"
    by (simp add: SUPPORT_MODELS_def str_in_iff [symmetric])
  show ?thesis
    using yes no
      Config_init_iff_family [of "\<lparr>y_arch = Some ''YOLOv3_darknet'',
          y_Preprocess = Some ([] :: unit op_info list),
          y_use_python_inference = Some False, y_min_subgraph_size = Some 3,
          y_label_list = Some [''digit''], y_mask_resolution = None, y_with_lmk = None\<rparr>"
        "''YOLOv3_darknet''" "[]" False 3 "[''digit'']"]
      Config_init_iff_family [of "\<lparr>y_arch = Some ''CenterNet'',
          y_Preprocess = Some ([] :: unit op_info list),
          y_use_python_inference = Some False, y_min_subgraph_size = Some 3,
          y_label_list = Some [''digit''], y_mask_resolution = None, y_with_lmk = None\<rparr>"
        "''CenterNet''" "[]" False 3 "[''digit'']"]
    by simp
qed

section \<open>Properties of the model inputs\<close>

text \<open>
  Claim C5. \<^verbatim>\<open>create_inputs\<close> is a function of the image tensor, the image
  metadata and the architecture string. It tests the family names as substrings of the
  architecture in a fixed order, and the first that occurs decides the inputs:
  for YOLO the image and the origin shape as an integer tensor; else for RetinaNet or
  EfficientDet the image and the float tensor \<open>[pad_h, pad_w, scale_x]\<close>; else for RCNN
  or FCOS these two and the float tensor \<open>[origin_h, origin_w, 1.0]\<close>; else for TTF the
  image and the float tensor \<open>[scale_x, scale_y, scale_x, scale_y]\<close>; else for SOLOv2
  the image and the float tensor \<open>[resize_h, resize_w, scale_x]\<close>. The pad shape is the
  resize shape when the metadata has no pad shape.
\<close>

theorem create_inputs_dispatch:
  "(str_in ''YOLO'' a \<longrightarrow>
      create_inputs im info a =
        [''image'' \<mapsto> Image im,
         ''im_size'' \<mapsto> Int32 [[word_of_int (fst (origin_shape info)),
                                   word_of_int (snd (origin_shape info))]]])
 \<and> (\<not> str_in ''YOLO'' a \<and> (str_in ''RetinaNet'' a \<or> str_in ''EfficientDet'' a) \<longrightarrow>
      create_inputs im info a =
        [''image'' \<mapsto> Image im,
         ''im_info'' \<mapsto> Float32 [map of_int (pad_shape_or_resize info) @ [fst (scale info)]]])
 \<and> (\<not> str_in ''YOLO'' a \<and> \<not> str_in ''RetinaNet'' a \<and> \<not> str_in ''EfficientDet'' a \<and>
      (str_in ''RCNN'' a \<or> str_in ''FCOS'' a) \<longrightarrow>
      create_inputs im info a =
        [''image'' \<mapsto> Image im,
         ''im_info'' \<mapsto> Float32 [map of_int (pad_shape_or_resize info) @ [fst (scale info)]],
         ''im_shape'' \<mapsto> Float32 [[of_int (fst (origin_shape info)),
                                     of_int (snd (origin_shape info)), 1]]])
 \<and> (\<not> str_in ''YOLO'' a \<and> \<not> str_in ''RetinaNet'' a \<and> \<not> str_in ''EfficientDet'' a \<and>
      \<not> str_in ''RCNN'' a \<and> \<not> str_in ''FCOS'' a \<and> str_in ''TTF'' a \<longrightarrow>
      create_inputs im info a =
        [''image'' \<mapsto> Image im,
         ''scale_factor'' \<mapsto> Float32_1d [fst (scale info), snd (scale info),
                                          fst (scale info), snd (scale info)]])
 \<and> (\<not> str_in ''YOLO'' a \<and> \<not> str_in ''RetinaNet'' a \<and> \<not> str_in ''EfficientDet'' a \<and>
      \<not> str_in ''RCNN'' a \<and> \<not> str_in ''FCOS'' a \<and> \<not> str_in ''TTF'' a \<and>
      str_in ''SOLOv2'' a \<longrightarrow>
      create_inputs im info a =
        [''image'' \<mapsto> Image im,
         ''im_info'' \<mapsto> Float32 [[of_int (fst (resize_shape info)),
                                    of_int (snd (resize_shape info)), fst (scale info)]]])
 \<and> pad_shape_or_resize info =
      (case pad_shape info of
         Some p \<Rightarrow> [fst p, snd p]
       | None \<Rightarrow> [fst (resize_shape info), snd (resize_shape info)])"
  by (simp add: create_inputs_def Let_def list_of_def pad_shape_or_resize_def numeral_2_eq_2
        split: option.splits)

theorem create_inputs_dispatch_witness:
  "create_inputs (0::nat)
      \<lparr>origin_shape = (480, 640), resize_shape = (608, 608), pad_shape = None,
       scale = (19 / 20, 19 / 15)\<rparr> ''YOLOv3_RCNN''
     = [''image'' \<mapsto> Image 0, ''im_size'' \<mapsto> Int32 [[480, 640]]]
 \<and> create_inputs (0::nat)
      \<lparr>origin_shape = (480, 640), resize_shape = (800, 1067), pad_shape = Some (800, 1088),
       scale = (5 / 3, 5 / 3)\<rparr> ''RetinaNet''
     = [''image'' \<mapsto> Image 0, ''im_info'' \<mapsto> Float32 [[800, 1088, 5 / 3]]]
 \<and> create_inputs (0::nat)
      \<lparr>origin_shape = (480, 640), resize_shape = (800, 1067), pad_shape = None,
       scale = (5 / 3, 5 / 3)\<rparr> ''MaskRCNN''
     = [''image'' \<mapsto> Image 0, ''im_info'' \<mapsto> Float32 [[800, 1067, 5 / 3]],
        ''im_shape'' \<mapsto> Float32 [[480, 640, 1]]]
 \<and> create_inputs (0::nat)
      \<lparr>origin_shape = (480, 640), resize_shape = (512, 512), pad_shape = None,
       scale = (4 / 5, 16 / 15)\<rparr> ''TTFNet''
     = [''image'' \<mapsto> Image 0,
        ''scale_factor'' \<mapsto> Float32_1d [4 / 5, 16 / 15, 4 / 5, 16 / 15]]
 \<and> create_inputs (0::nat)
      \<lparr>origin_shape = (480, 640), resize_shape = (800, 1067), pad_shape = Some (800, 1088),
       scale = (5 / 3, 5 / 3)\<rparr> ''SOLOv2''
     = [''image'' \<mapsto> Image 0, ''im_info'' \<mapsto> Float32 [[800, 1067, 5 / 3]]]"
  using
    create_inputs_dispatch [of "''YOLOv3_RCNN''" "0::nat"
      "\<lparr>origin_shape = (480, 640), resize_shape = (608, 608), pad_shape = None,
        scale = (19 / 20, 19 / 15)\<rparr>"]
    create_inputs_dispatch [of "''RetinaNet''" "0::nat"
      "\<lparr>origin_shape = (480, 640), resize_shape = (800, 1067), pad_shape = Some (800, 1088),
        scale = (5 / 3, 5 / 3)\<rparr>"]
    create_inputs_dispatch [of "''MaskRCNN''" "0::nat"
      "\<lparr>origin_shape = (480, 640), resize_shape = (800, 1067), pad_shape = None,
        scale = (5 / 3, 5 / 3)\<rparr>"]
    create_inputs_dispatch [of "''TTFNet''" "0::nat"
      "\<lparr>origin_shape = (480, 640), resize_shape = (512, 512), pad_shape = None,
        scale = (4 / 5, 16 / 15)\<rparr>"]
    create_inputs_dispatch [of "''SOLOv2''" "0::nat"
      "\<lparr>origin_shape = (480, 640), resize_shape = (800, 1067), pad_shape = Some (800, 1088),
        scale = (5 / 3, 5 / 3)\<rparr>"]
  by simp

text \<open>
  Claim C10. For every architecture string that contains none of YOLO, RetinaNet,
  EfficientDet, RCNN, FCOS, TTF and SOLOv2, and so for SSD and Face,
  \<^verbatim>\<open>create_inputs\<close> returns a dictionary whose only entry is the image tensor under
  the key \<^verbatim>\<open>image\<close>.
\<close>

theorem create_inputs_image_only:
  assumes "\<not> str_in ''YOLO'' a" and "\<not> str_in ''RetinaNet'' a"
    and "\<not> str_in ''EfficientDet'' a" and "\<not> str_in ''RCNN'' a"
    and "\<not> str_in ''FCOS'' a" and "\<not> str_in ''TTF'' a" and "\<not> str_in ''SOLOv2'' a"
  shows "create_inputs im info a = [''image'' \<mapsto> Image im]
       \<and> dom (create_inputs im info a) = {''image''}"
  using assms by (simp add: create_inputs_def Let_def)

theorem create_inputs_image_only_witness:
  "create_inputs (0::nat)
      \<lparr>origin_shape = (480, 640), resize_shape = (300, 300), pad_shape = None,
       scale = (5 / 8, 15 / 32)\<rparr> ''SSD'' = [''image'' \<mapsto> Image 0]
 \<and> dom (create_inputs (0::nat)
      \<lparr>origin_shape = (480, 640), resize_shape = (640, 640), pad_shape = None,
       scale = (4 / 3, 1)\<rparr> ''Face'') = {''image''}"
  using
    create_inputs_image_only [of "''SSD''" "0::nat"
      "\<lparr>origin_shape = (480, 640), resize_shape = (300, 300), pad_shape = None,
        scale = (5 / 8, 15 / 32)\<rparr>"]
    create_inputs_image_only [of "''Face''" "0::nat"
      "\<lparr>origin_shape = (480, 640), resize_shape = (640, 640), pad_shape = None,
        scale = (4 / 3, 1)\<rparr>"]
  by simp

section \<open>Properties of the detector\<close>

subsection \<open>The conversion to float32\<close>

lemma to_float32_minus_one: "to_float32 (- 1) = Finite (- 1)"
  by (simp add: to_float32_def pow2_def round_half_even_def eval_nat_numeral)

lemma to_float32_half: "to_float32 (1 / 2) = Finite (1 / 2)"
  by (simp add: to_float32_def pow2_def round_half_even_def eval_nat_numeral)

text \<open>
  The Python float \<^verbatim>\<open>0.6\<close> is the double \<open>5404319552844595 / 2 ^ 53\<close>, just below
  \<open>3 / 5\<close>; its conversion to \<^verbatim>\<open>float32\<close> is \<open>10066330 / 2 ^ 24\<close>, just above.
\<close>

lemma to_float32_double_0_6:
  "to_float32 (5404319552844595 / 9007199254740992) = Finite (5033165 / 8388608)"
  by (simp add: to_float32_def pow2_def round_half_even_def eval_nat_numeral)

subsection \<open>Selecting rows\<close>

lemma upt_0_Suc_Cons: "[0..<Suc n] = 0 # map Suc [0..<n]"
  by (simp add: upt_conv_Cons map_Suc_upt del: upt_Suc)

lemma select_by_index:
  "length ps = length xs \<Longrightarrow>
     map snd (filter fst (zip ps xs)) = map ((!) xs) (filter ((!) ps) [0..<length xs])"
proof (induction ps xs rule: list_induct2)
  case Nil
  then show ?case by simp
next
  case (Cons p ps x xs)
  then show ?case
    by (simp add: upt_0_Suc_Cons filter_map comp_def del: upt_Suc)
qed

lemma length_greater: "length (greater xs t) = length xs"
  by (simp add: greater_def split: float32.splits)

lemma length_expect_boxes:
  "length (logical_and (greater (map f rs) t) (greater (map g rs) u)) = length rs"
  by (simp add: logical_and_def length_greater)

lemma expect_boxes_finite:
  assumes thr: "to_float32 t = Finite t'" and len: "length xs = length rs"
  shows "map snd (filter fst
           (zip (logical_and (greater (map (\<lambda>r. r ! 1) rs) t)
                             (greater (map (\<lambda>r. r ! 0) rs) (- 1))) xs))
       = map ((!) xs) (filter (\<lambda>i. t' < rs ! i ! 1 \<and> - 1 < rs ! i ! 0) [0..<length rs])"
proof -
  let ?ps = "logical_and (greater (map (\<lambda>r. r ! 1) rs) t) (greater (map (\<lambda>r. r ! 0) rs) (- 1))"
  have l: "length ?ps = length xs"
    using len by (simp add: length_expect_boxes)
  have nth: "\<And>i. i < length rs \<Longrightarrow> ?ps ! i = (t' < rs ! i ! 1 \<and> - 1 < rs ! i ! 0)"
    by (simp add: logical_and_def greater_def thr to_float32_minus_one)
  have "filter ((!) ?ps) [0..<length xs]
      = filter (\<lambda>i. t' < rs ! i ! 1 \<and> - 1 < rs ! i ! 0) [0..<length rs]"
    using len nth by (auto intro: filter_cong)
  then show ?thesis
    using l by (simp add: select_by_index)
qed

lemma expect_boxes_sentinel:
  assumes "\<forall>r \<in> set rs. r ! 0 = - 1"
  shows "filter fst (zip (logical_and (greater ss t) (greater (map (\<lambda>r. r ! 0) rs) (- 1))) xs)
       = []"
proof -
  have "greater (map (\<lambda>r. r ! 0) rs) (- 1) = map (\<lambda>r. False) rs"
    using assms by (simp add: greater_def to_float32_minus_one)
  then have "\<forall>p \<in> set (logical_and (greater ss t) (greater (map (\<lambda>r. r ! 0) rs) (- 1))). \<not> p"
    by (auto simp: logical_and_def dest!: set_zip_rightD)
  then have "\<forall>z \<in> set (zip (logical_and (greater ss t)
                 (greater (map (\<lambda>r. r ! 0) rs) (- 1))) xs). \<not> fst z"
    by (auto dest: set_zip_leftD)
  then show ?thesis by (simp only: filter_False)
qed

lemma imul_columns_boxes:
  assumes "6 \<le> ncols b"
  shows "imul_columns [(2, h), (3, w), (4, h), (5, w)] b =
     (b\<lparr>rows := map (\<lambda>r. r[2 := r ! 2 * h, 3 := r ! 3 * w, 4 := r ! 4 * h, 5 := r ! 5 * w])
                   (rows b)\<rparr>, None)"
  using assms by (simp add: imul_column_def comp_def)

lemma postprocess_returns:
  fixes lmk2out :: "ndarray \<Rightarrow> 'k \<Rightarrow> im_info \<Rightarrow> real \<Rightarrow> error + 'l"
    and masks_opt :: "'m list option"
    and config :: "'p config"
  assumes cols: "6 \<le> ncols b"
    and ms: "\<forall>ms. masks_opt = Some ms \<longrightarrow> length ms = length (rows b)"
    and lmk: "(np_lmk = None \<and> lm = None) \<or>
              (\<exists>k l. np_lmk = Some k \<and> lmk2out b k info t = Inr l \<and> lm = Some l)"
    and sb: "sb = (if arch config = ''SSD'' \<or> arch config = ''Face''
                   then b\<lparr>rows := map (\<lambda>r. r[2 := r ! 2 * of_int (snd (origin_shape info)),
                                              3 := r ! 3 * of_int (fst (origin_shape info)),
                                              4 := r ! 4 * of_int (snd (origin_shape info)),
                                              5 := r ! 5 * of_int (fst (origin_shape info))])
                                     (rows b)\<rparr>
                   else b)"
    and sel: "sel = logical_and (greater (map (\<lambda>r. r ! 1) (rows b)) t)
                                (greater (map (\<lambda>r. r ! 0) (rows b)) (- 1))"
  shows "postprocess config lmk2out \<lparr>np_boxes = b, np_masks = masks_opt\<rparr> np_lmk info t =
     (\<lparr>np_boxes = sb, np_masks = masks_opt\<rparr>,
      Inr \<lparr>landmark = lm,
           boxes = \<lparr>ncols = ncols b, rows = map snd (filter fst (zip sel (rows sb)))\<rparr>,
           masks = map_option (\<lambda>ms. map snd (filter fst (zip sel ms))) masks_opt\<rparr>)"
proof -
  obtain w h where wh: "origin_shape info = (w, h)" by (cases "origin_shape info")
  have lm: "(case np_lmk of None \<Rightarrow> Inr None
      | Some k \<Rightarrow> map_sum id Some (lmk2out (np_boxes \<lparr>np_boxes = b, np_masks = masks_opt\<rparr>) k info t))
      = Inr lm"
    using lmk by auto
  show ?thesis
  proof (cases masks_opt)
    case None
    show ?thesis
      unfolding postprocess_def lm
      using cols None wh
      by (simp add: sb sel imul_column_def column_def comp_def take_rows_def
          length_expect_boxes print_boxes_def Let_def)
  next
    case (Some msk)
    with ms have l2: "length msk = length (rows b)" by simp
    show ?thesis
      unfolding postprocess_def lm
      using cols Some wh l2
      by (simp add: sb sel imul_column_def column_def comp_def take_rows_def
          length_expect_boxes print_boxes_def Let_def)
  qed
qed

lemma lmk_cases:
  fixes lmk2out :: "ndarray \<Rightarrow> 'k \<Rightarrow> im_info \<Rightarrow> real \<Rightarrow> error + 'l"
  assumes "\<forall>k. np_lmk = Some k \<longrightarrow> (\<exists>l. lmk2out b k info t = Inr l)"
  obtains lm where "(np_lmk = None \<and> lm = None) \<or>
              (\<exists>k l. np_lmk = Some k \<and> lmk2out b k info t = Inr l \<and> lm = Some l)"
  using assms by (cases np_lmk) auto

text \<open>
  Claim C1, as amended. On a well-formed raw boxes array with at least the six
  documented columns, \<^verbatim>\<open>postprocess\<close> returns exactly the rows at the indices \<open>i\<close>
  whose raw score (column 1) is strictly greater than the threshold as converted to
  \<^verbatim>\<open>float32\<close>, the type of the array, and whose raw class id (column 0) is
  strictly greater than \<open>-1\<close>, in their order. A row whose score equals the converted
  threshold is dropped; for a threshold that is a \<^verbatim>\<open>float32\<close> value, such as the
  default \<open>0.5\<close>, the converted threshold is the threshold. When a masks tensor of the
  same length is given, the returned masks are the entries of the masks tensor at the
  same indices. The rows are read from the boxes array as the call leaves it.
\<close>

theorem postprocess_keeps_rows_float32:
  fixes lmk2out :: "ndarray \<Rightarrow> 'k \<Rightarrow> im_info \<Rightarrow> real \<Rightarrow> error + 'l"
    and masks_opt :: "'m list option"
    and config :: "'p config"
  assumes wf: "wf_ndarray b" and cols: "6 \<le> ncols b"
    and ms: "\<forall>ms. masks_opt = Some ms \<longrightarrow> length ms = length (rows b)"
    and lmk: "\<forall>k. np_lmk = Some k \<longrightarrow> (\<exists>l. lmk2out b k info t = Inr l)"
    and thr: "to_float32 t = Finite t'"
  shows "\<exists>after res.
      postprocess config lmk2out \<lparr>np_boxes = b, np_masks = masks_opt\<rparr> np_lmk info t
        = (after, Inr res)
    \<and> ncols (boxes res) = ncols b
    \<and> rows (boxes res) =
        map (\<lambda>i. rows (np_boxes after) ! i)
          (filter (\<lambda>i. t' < rows b ! i ! 1 \<and> - 1 < rows b ! i ! 0) [0..<length (rows b)])
    \<and> masks res =
        map_option (\<lambda>ms. map (\<lambda>i. ms ! i)
          (filter (\<lambda>i. t' < rows b ! i ! 1 \<and> - 1 < rows b ! i ! 0) [0..<length (rows b)]))
          masks_opt"
proof -
  obtain lm where lm: "(np_lmk = None \<and> lm = None) \<or>
      (\<exists>k l. np_lmk = Some k \<and> lmk2out b k info t = Inr l \<and> lm = Some l)"
    using lmk by (rule lmk_cases)
  define sb where "sb = (if arch config = ''SSD'' \<or> arch config = ''Face''
                   then b\<lparr>rows := map (\<lambda>r. r[2 := r ! 2 * of_int (snd (origin_shape info)),
                                              3 := r ! 3 * of_int (fst (origin_shape info)),
                                              4 := r ! 4 * of_int (snd (origin_shape info)),
                                              5 := r ! 5 * of_int (fst (origin_shape info))])
                                     (rows b)\<rparr>
                   else b)"
  define sel where "sel = logical_and (greater (map (\<lambda>r. r ! 1) (rows b)) t)
                                (greater (map (\<lambda>r. r ! 0) (rows b)) (- 1))"
  define kept where "kept = filter (\<lambda>i. t' < rows b ! i ! 1 \<and> - 1 < rows b ! i ! 0)
                        [0..<length (rows b)]"
  have len: "length (rows sb) = length (rows b)"
    by (simp add: sb_def)
  have bx: "map snd (filter fst (zip sel (rows sb))) = map ((!) (rows sb)) kept"
    unfolding sel_def kept_def using thr len by (rule expect_boxes_finite)
  have mk: "map_option (\<lambda>ms. map snd (filter fst (zip sel ms))) masks_opt
          = map_option (\<lambda>ms. map ((!) ms) kept) masks_opt"
  proof (cases masks_opt)
    case None
    then show ?thesis by simp
  next
    case (Some msk)
    with ms have "length msk = length (rows b)" by simp
    with thr have "map snd (filter fst (zip sel msk)) = map ((!) msk) kept"
      unfolding sel_def kept_def by (rule expect_boxes_finite)
    with Some show ?thesis by simp
  qed
  have "postprocess config lmk2out \<lparr>np_boxes = b, np_masks = masks_opt\<rparr> np_lmk info t =
     (\<lparr>np_boxes = sb, np_masks = masks_opt\<rparr>,
      Inr \<lparr>landmark = lm,
           boxes = \<lparr>ncols = ncols b, rows = map snd (filter fst (zip sel (rows sb)))\<rparr>,
           masks = map_option (\<lambda>ms. map snd (filter fst (zip sel ms))) masks_opt\<rparr>)"
    using cols ms lm sb_def sel_def by (rule postprocess_returns)
  then show ?thesis
    unfolding bx mk by (simp add: kept_def)
qed

theorem postprocess_keeps_rows_float32_witness:
  "snd (postprocess
      \<lparr>arch = ''YOLO'', preprocess_infos = ([] :: unit op_info list),
       use_python_inference = False, min_subgraph_size = 3, labels = [''digit''],
       mask_resolution = Some 14, with_lmk = None\<rparr>
      (\<lambda>b k info t. Inl ExternalError :: error + unit)
      \<lparr>np_boxes = \<lparr>ncols = 6, rows =
          [[0, 9 / 10, 10, 20, 30, 40],
           [1, 1 / 2, 11, 21, 31, 41],
           [- 1, 19 / 20, 12, 22, 32, 42],
           [2, 4194305 / 8388608, 13, 23, 33, 43]]\<rparr>,
       np_masks = Some [''m0'', ''m1'', ''m2'', ''m3'']\<rparr>
      (None :: unit option)
      \<lparr>origin_shape = (480, 640), resize_shape = (608, 608), pad_shape = None,
       scale = (19 / 20, 19 / 15)\<rparr>
      (1 / 2))
   = Inr \<lparr>landmark = None,
          boxes = \<lparr>ncols = 6, rows =
            [[0, 9 / 10, 10, 20, 30, 40], [2, 4194305 / 8388608, 13, 23, 33, 43]]\<rparr>,
          masks = Some [''m0'', ''m3'']\<rparr>
 \<and> snd (postprocess
      \<lparr>arch = ''YOLO'', preprocess_infos = ([] :: unit op_info list),
       use_python_inference = False, min_subgraph_size = 3, labels = [''digit''],
       mask_resolution = Some 14, with_lmk = None\<rparr>
      (\<lambda>b k info t. Inl ExternalError :: error + unit)
      \<lparr>np_boxes = \<lparr>ncols = 6, rows =
          [[0, 5033165 / 8388608, 10, 20, 30, 40],
           [1, 10066331 / 16777216, 11, 21, 31, 41]]\<rparr>,
       np_masks = Some [''m0'', ''m1'']\<rparr>
      (None :: unit option)
      \<lparr>origin_shape = (480, 640), resize_shape = (608, 608), pad_shape = None,
       scale = (19 / 20, 19 / 15)\<rparr>
      (5404319552844595 / 9007199254740992))
   = Inr \<lparr>landmark = None,
          boxes = \<lparr>ncols = 6, rows = [[1, 10066331 / 16777216, 11, 21, 31, 41]]\<rparr>,
          masks = Some [''m1'']\<rparr>"
  using
    postprocess_keeps_rows_float32 [of
      "\<lparr>ncols = 6, rows =
          [[0, 9 / 10, 10, 20, 30, 40],
           [1, 1 / 2, 11, 21, 31, 41],
           [- 1, 19 / 20, 12, 22, 32, 42],
           [2, 4194305 / 8388608, 13, 23, 33, 43]]\<rparr>"
      "Some [''m0'', ''m1'', ''m2'', ''m3'']"
      "None :: unit option"
      "\<lambda>b k info t. Inl ExternalError :: error + unit"
      "\<lparr>origin_shape = (480, 640), resize_shape = (608, 608), pad_shape = None,
       scale = (19 / 20, 19 / 15)\<rparr>"
      "1 / 2" "1 / 2"
      "\<lparr>arch = ''YOLO'', preprocess_infos = ([] :: unit op_info list),
       use_python_inference = False, min_subgraph_size = 3, labels = [''digit''],
       mask_resolution = Some 14, with_lmk = None\<rparr>"]
    postprocess_keeps_rows_float32 [of
      "\<lparr>ncols = 6, rows =
          [[0, 5033165 / 8388608, 10, 20, 30, 40],
           [1, 10066331 / 16777216, 11, 21, 31, 41]]\<rparr>"
      "Some [''m0'', ''m1'']"
      "None :: unit option"
      "\<lambda>b k info t. Inl ExternalError :: error + unit"
      "\<lparr>origin_shape = (480, 640), resize_shape = (608, 608), pad_shape = None,
       scale = (19 / 20, 19 / 15)\<rparr>"
      "5404319552844595 / 9007199254740992" "5033165 / 8388608"
      "\<lparr>arch = ''YOLO'', preprocess_infos = ([] :: unit op_info list),
       use_python_inference = False, min_subgraph_size = 3, labels = [''digit''],
       mask_resolution = Some 14, with_lmk = None\<rparr>"]
  by (simp add: wf_ndarray_def postprocess_def column_def take_rows_def logical_and_def
      greater_def to_float32_half to_float32_minus_one to_float32_double_0_6
      print_boxes_def Let_def)

text \<open>
  The claim C1 as stated fails. The threshold is the Python float \<^verbatim>\<open>0.6\<close>, the
  double \<open>5404319552844595 / 2 ^ 53\<close>; the score is the \<^verbatim>\<open>float32\<close> value
  \<open>10066330 / 2 ^ 24\<close>. The score is strictly greater than the threshold and the class
  id is greater than \<open>-1\<close>, and the row is dropped: the threshold converts to that very
  \<^verbatim>\<open>float32\<close> value.
\<close>

theorem postprocess_threshold_rounding_counterexample:
  "(5404319552844595 / 9007199254740992 :: real) < 5033165 / 8388608
 \<and> (- 1 :: real) < 0
 \<and> snd (postprocess
      \<lparr>arch = ''YOLO'', preprocess_infos = ([] :: unit op_info list),
       use_python_inference = False, min_subgraph_size = 3, labels = [''digit''],
       mask_resolution = Some 14, with_lmk = None\<rparr>
      (\<lambda>b k info t. Inl ExternalError :: error + unit)
      \<lparr>np_boxes = \<lparr>ncols = 6, rows = [[0, 5033165 / 8388608, 10, 20, 30, 40]]\<rparr>,
       np_masks = (None :: string list option)\<rparr>
      (None :: unit option)
      \<lparr>origin_shape = (480, 640), resize_shape = (608, 608), pad_shape = None,
       scale = (19 / 20, 19 / 15)\<rparr>
      (5404319552844595 / 9007199254740992))
   = Inr \<lparr>landmark = None, boxes = \<lparr>ncols = 6, rows = []\<rparr>, masks = None\<rparr>"
  by (simp add: postprocess_def column_def take_rows_def logical_and_def
      greater_def to_float32_minus_one to_float32_double_0_6 print_boxes_def Let_def)

subsection \<open>What the call leaves in the arrays\<close>

lemma postprocess_store:
  fixes lmk2out :: "ndarray \<Rightarrow> 'k \<Rightarrow> im_info \<Rightarrow> real \<Rightarrow> error + 'l"
    and args :: "'m arrays"
    and config :: "'p config"
  shows "fst (postprocess config lmk2out args np_lmk info t) =
     (if (\<exists>k e. np_lmk = Some k \<and> lmk2out (np_boxes args) k info t = Inl e) then args
      else if arch config = ''SSD'' \<or> arch config = ''Face'' then
        args\<lparr>np_boxes :=
          fst (imul_columns [(2, of_int (snd (origin_shape info))),
                             (3, of_int (fst (origin_shape info))),
                             (4, of_int (snd (origin_shape info))),
                             (5, of_int (fst (origin_shape info)))] (np_boxes args))\<rparr>
      else args)"
proof (cases "case np_lmk of None \<Rightarrow> Inr None
      | Some k \<Rightarrow> map_sum id Some (lmk2out (np_boxes args) k info t)")
  case (Inl e)
  then have "\<exists>k e. np_lmk = Some k \<and> lmk2out (np_boxes args) k info t = Inl e"
    by (cases np_lmk) (auto simp: map_sum_def split: sum.splits)
  with Inl show ?thesis by (simp add: postprocess_def)
next
  case (Inr lm)
  then have no: "\<not> (\<exists>k e. np_lmk = Some k \<and> lmk2out (np_boxes args) k info t = Inl e)"
    by (cases np_lmk) auto
  show ?thesis
    unfolding postprocess_def Inr using no
    by (auto simp: case_prod_beta Let_def simp del: imul_columns.simps split: option.splits)
qed

text \<open>
  Claim C8, as amended. \<^verbatim>\<open>postprocess\<close> never writes to the masks tensor
  \<^verbatim>\<open>np_masks\<close>. It leaves the boxes array \<^verbatim>\<open>np_boxes\<close> as it was when the
  architecture is neither exactly \<^verbatim>\<open>SSD\<close> nor exactly \<^verbatim>\<open>Face\<close>; for these
  two architectures it multiplies the columns 2 to 5 of the caller's array in place (on
  an array with at least six columns, when the landmark decoder does not raise), and
  the returned boxes are a new array in either case.
\<close>

theorem postprocess_frame:
  fixes lmk2out :: "ndarray \<Rightarrow> 'k \<Rightarrow> im_info \<Rightarrow> real \<Rightarrow> error + 'l"
    and args :: "'m arrays"
    and config :: "'p config"
  shows "np_masks (fst (postprocess config lmk2out args np_lmk info t)) = np_masks args
    \<and> (arch config \<noteq> ''SSD'' \<and> arch config \<noteq> ''Face'' \<longrightarrow>
         fst (postprocess config lmk2out args np_lmk info t) = args)
    \<and> ((arch config = ''SSD'' \<or> arch config = ''Face'') \<and> 6 \<le> ncols (np_boxes args) \<and>
        (\<forall>k. np_lmk = Some k \<longrightarrow> (\<exists>l. lmk2out (np_boxes args) k info t = Inr l)) \<longrightarrow>
         np_boxes (fst (postprocess config lmk2out args np_lmk info t)) =
           (np_boxes args)\<lparr>rows :=
              map (\<lambda>r. r[2 := r ! 2 * of_int (snd (origin_shape info)),
                         3 := r ! 3 * of_int (fst (origin_shape info)),
                         4 := r ! 4 * of_int (snd (origin_shape info)),
                         5 := r ! 5 * of_int (fst (origin_shape info))])
                (rows (np_boxes args))\<rparr>)"
  by (auto simp: postprocess_store imul_columns_boxes simp del: imul_columns.simps)


theorem postprocess_frame_witness:
  "fst (postprocess
      \<lparr>arch = ''YOLO'', preprocess_infos = ([] :: unit op_info list),
       use_python_inference = False, min_subgraph_size = 3, labels = [''digit''],
       mask_resolution = Some 14, with_lmk = None\<rparr>
      (\<lambda>b k info t. Inl ExternalError :: error + unit)
      \<lparr>np_boxes = \<lparr>ncols = 6, rows = [[0, 9 / 10, 10, 20, 30, 40], [- 1, 0, 0, 0, 0, 0]]\<rparr>,
       np_masks = Some [''m0'', ''m1'']\<rparr>
      (None :: unit option)
      \<lparr>origin_shape = (480, 640), resize_shape = (608, 608), pad_shape = None,
       scale = (19 / 20, 19 / 15)\<rparr>
      (1 / 2))
   = \<lparr>np_boxes = \<lparr>ncols = 6, rows = [[0, 9 / 10, 10, 20, 30, 40], [- 1, 0, 0, 0, 0, 0]]\<rparr>,
      np_masks = Some [''m0'', ''m1'']\<rparr>
 \<and> fst (postprocess
      \<lparr>arch = ''Face'', preprocess_infos = ([] :: unit op_info list),
       use_python_inference = False, min_subgraph_size = 3, labels = [''face''],
       mask_resolution = None, with_lmk = None\<rparr>
      (\<lambda>b k info t. Inl ExternalError :: error + unit)
      \<lparr>np_boxes = \<lparr>ncols = 6, rows = [[0, 9 / 10, 1 / 10, 1 / 5, 3 / 10, 2 / 5]]\<rparr>,
       np_masks = (None :: string list option)\<rparr>
      (None :: unit option)
      \<lparr>origin_shape = (480, 640), resize_shape = (640, 640), pad_shape = None,
       scale = (4 / 3, 1)\<rparr>
      (1 / 2))
   = \<lparr>np_boxes = \<lparr>ncols = 6, rows = [[0, 9 / 10, 64, 96, 192, 192]]\<rparr>, np_masks = None\<rparr>"
  using
    postprocess_frame [of
      "\<lparr>arch = ''YOLO'', preprocess_infos = ([] :: unit op_info list),
       use_python_inference = False, min_subgraph_size = 3, labels = [''digit''],
       mask_resolution = Some 14, with_lmk = None\<rparr>"
      "\<lambda>b k info t. Inl ExternalError :: error + unit"
      "\<lparr>np_boxes = \<lparr>ncols = 6, rows = [[0, 9 / 10, 10, 20, 30, 40], [- 1, 0, 0, 0, 0, 0]]\<rparr>,
       np_masks = Some [''m0'', ''m1'']\<rparr>"
      "None :: unit option"
      "\<lparr>origin_shape = (480, 640), resize_shape = (608, 608), pad_shape = None,
       scale = (19 / 20, 19 / 15)\<rparr>"
      "1 / 2"]
    postprocess_frame [of
      "\<lparr>arch = ''Face'', preprocess_infos = ([] :: unit op_info list),
       use_python_inference = False, min_subgraph_size = 3, labels = [''face''],
       mask_resolution = None, with_lmk = None\<rparr>"
      "\<lambda>b k info t. Inl ExternalError :: error + unit"
      "\<lparr>np_boxes = \<lparr>ncols = 6, rows = [[0, 9 / 10, 1 / 10, 1 / 5, 3 / 10, 2 / 5]]\<rparr>,
       np_masks = (None :: string list option)\<rparr>"
      "None :: unit option"
      "\<lparr>origin_shape = (480, 640), resize_shape = (640, 640), pad_shape = None,
       scale = (4 / 3, 1)\<rparr>"
      "1 / 2"]
  by (simp add: postprocess_def imul_column_def)

text \<open>
  The claim C8 as stated fails: for the architecture \<^verbatim>\<open>SSD\<close> the caller's boxes
  array is not what it was before the call.
\<close>

theorem postprocess_mutates_boxes_counterexample:
  "np_boxes (fst (postprocess
      \<lparr>arch = ''SSD'', preprocess_infos = ([] :: unit op_info list),
       use_python_inference = False, min_subgraph_size = 3, labels = [''digit''],
       mask_resolution = None, with_lmk = None\<rparr>
      (\<lambda>b k info t. Inl ExternalError :: error + unit)
      \<lparr>np_boxes = \<lparr>ncols = 6, rows = [[0, 9 / 10, 1 / 10, 1 / 5, 3 / 10, 2 / 5]]\<rparr>,
       np_masks = (None :: string list option)\<rparr>
      (None :: unit option)
      \<lparr>origin_shape = (480, 640), resize_shape = (300, 300), pad_shape = None,
       scale = (5 / 8, 15 / 32)\<rparr>
      (1 / 2)))
   \<noteq> \<lparr>ncols = 6, rows = [[0, 9 / 10, 1 / 10, 1 / 5, 3 / 10, 2 / 5]]\<rparr>"
  by (simp add: postprocess_def imul_column_def)


subsection \<open>Scaling to the origin image\<close>

lemma map_nth_map_indices:
  assumes "\<forall>i \<in> set is. i < length xs"
  shows "map ((!) (map f xs)) is = map (\<lambda>i. f (xs ! i)) is"
  using assms by (induction "is") simp_all

text \<open>
  With the origin shape \<open>(H, W)\<close>: when the architecture string is exactly
  \<^verbatim>\<open>SSD\<close> or exactly \<^verbatim>\<open>Face\<close>, every returned row is the raw row with columns 2
  and 4 (\<open>x_min\<close>, \<open>x_max\<close>) multiplied by \<open>W\<close> and columns 3 and 5 (\<open>y_min\<close>, \<open>y_max\<close>)
  multiplied by \<open>H\<close>; for every other architecture string the returned rows are the
  raw rows.
\<close>

lemma postprocess_scales_SSD_Face:
  fixes lmk2out :: "ndarray \<Rightarrow> 'k \<Rightarrow> im_info \<Rightarrow> real \<Rightarrow> error + 'l"
    and masks_opt :: "'m list option"
    and config :: "'p config"
  assumes cols: "6 \<le> ncols b"
    and ms: "\<forall>ms. masks_opt = Some ms \<longrightarrow> length ms = length (rows b)"
    and lmk: "\<forall>k. np_lmk = Some k \<longrightarrow> (\<exists>l. lmk2out b k info t = Inr l)"
    and thr: "to_float32 t = Finite t'"
    and os: "origin_shape info = (H, W)"
  shows "\<exists>after res.
      postprocess config lmk2out \<lparr>np_boxes = b, np_masks = masks_opt\<rparr> np_lmk info t
        = (after, Inr res)
    \<and> (arch config = ''SSD'' \<or> arch config = ''Face'' \<longrightarrow>
         rows (boxes res) =
           map (\<lambda>i. (rows b ! i)[2 := rows b ! i ! 2 * of_int W, 3 := rows b ! i ! 3 * of_int H,
                                  4 := rows b ! i ! 4 * of_int W, 5 := rows b ! i ! 5 * of_int H])
             (filter (\<lambda>i. t' < rows b ! i ! 1 \<and> - 1 < rows b ! i ! 0) [0..<length (rows b)]))
    \<and> (arch config \<noteq> ''SSD'' \<and> arch config \<noteq> ''Face'' \<longrightarrow>
         rows (boxes res) =
           map (\<lambda>i. rows b ! i)
             (filter (\<lambda>i. t' < rows b ! i ! 1 \<and> - 1 < rows b ! i ! 0) [0..<length (rows b)]))"
proof -
  obtain lm where lm: "(np_lmk = None \<and> lm = None) \<or>
      (\<exists>k l. np_lmk = Some k \<and> lmk2out b k info t = Inr l \<and> lm = Some l)"
    using lmk by (rule lmk_cases)
  define sb where "sb = (if arch config = ''SSD'' \<or> arch config = ''Face''
                   then b\<lparr>rows := map (\<lambda>r. r[2 := r ! 2 * of_int (snd (origin_shape info)),
                                              3 := r ! 3 * of_int (fst (origin_shape info)),
                                              4 := r ! 4 * of_int (snd (origin_shape info)),
                                              5 := r ! 5 * of_int (fst (origin_shape info))])
                                     (rows b)\<rparr>
                   else b)"
  define sel where "sel = logical_and (greater (map (\<lambda>r. r ! 1) (rows b)) t)
                                (greater (map (\<lambda>r. r ! 0) (rows b)) (- 1))"
  define kept where "kept = filter (\<lambda>i. t' < rows b ! i ! 1 \<and> - 1 < rows b ! i ! 0)
                        [0..<length (rows b)]"
  have in_range: "\<forall>i \<in> set kept. i < length (rows b)"
    by (simp add: kept_def)
  have len: "length (rows sb) = length (rows b)"
    by (simp add: sb_def)
  have bx: "map snd (filter fst (zip sel (rows sb))) = map ((!) (rows sb)) kept"
    unfolding sel_def kept_def using thr len by (rule expect_boxes_finite)
  have "postprocess config lmk2out \<lparr>np_boxes = b, np_masks = masks_opt\<rparr> np_lmk info t =
     (\<lparr>np_boxes = sb, np_masks = masks_opt\<rparr>,
      Inr \<lparr>landmark = lm,
           boxes = \<lparr>ncols = ncols b, rows = map snd (filter fst (zip sel (rows sb)))\<rparr>,
           masks = map_option (\<lambda>ms. map snd (filter fst (zip sel ms))) masks_opt\<rparr>)"
    using cols ms lm sb_def sel_def by (rule postprocess_returns)
  moreover have "arch config = ''SSD'' \<or> arch config = ''Face'' \<Longrightarrow>
      map ((!) (rows sb)) kept =
        map (\<lambda>i. (rows b ! i)[2 := rows b ! i ! 2 * of_int W, 3 := rows b ! i ! 3 * of_int H,
                               4 := rows b ! i ! 4 * of_int W, 5 := rows b ! i ! 5 * of_int H])
          kept"
    using os by (simp add: sb_def map_nth_map_indices [OF in_range])
  moreover have "arch config \<noteq> ''SSD'' \<and> arch config \<noteq> ''Face'' \<Longrightarrow>
      map ((!) (rows sb)) kept = map (\<lambda>i. rows b ! i) kept"
    by (simp add: sb_def)
  ultimately show ?thesis
    unfolding bx kept_def by auto
qed

text \<open>
  Claim C2 says that for the SSD and Face families the coordinates of each raw box are
  scaled to the origin image, \<open>x\<close> by the width and \<open>y\<close> by the height, and for the
  other families returned as they are. \<^verbatim>\<open>check_model\<close> and \<^verbatim>\<open>create_inputs\<close> decide
  the family by the names the architecture string contains; \<^verbatim>\<open>postprocess\<close> scales
  only when the string is exactly \<^verbatim>\<open>SSD\<close> or \<^verbatim>\<open>Face\<close>. With the origin shape
  \<open>(480, 640)\<close> and the normalised box \<open>(1/8, 1/4, 3/8, 1/2)\<close>: under \<^verbatim>\<open>SSD\<close> the box
  comes back as \<open>(80, 120, 240, 240)\<close>; under \<^verbatim>\<open>SSDLite\<close>, which contains
  \<^verbatim>\<open>SSD\<close>, passes \<^verbatim>\<open>check_model\<close> and gets the inputs of the SSD family, it comes
  back unscaled.
\<close>

theorem postprocess_SSD_variant_unscaled:
  "snd (postprocess
      \<lparr>arch = ''SSD'', preprocess_infos = ([] :: unit op_info list),
       use_python_inference = False, min_subgraph_size = 3, labels = [''digit''],
       mask_resolution = None, with_lmk = None\<rparr>
      (\<lambda>b k info t. Inl ExternalError :: error + unit)
      \<lparr>np_boxes = \<lparr>ncols = 6, rows = [[0, 3 / 4, 1 / 8, 1 / 4, 3 / 8, 1 / 2]]\<rparr>,
       np_masks = (None :: string list option)\<rparr>
      (None :: unit option)
      \<lparr>origin_shape = (480, 640), resize_shape = (300, 300), pad_shape = None,
       scale = (5 / 8, 15 / 32)\<rparr>
      (1 / 2))
   = Inr \<lparr>landmark = None,
          boxes = \<lparr>ncols = 6, rows = [[0, 3 / 4, 80, 120, 240, 240]]\<rparr>,
          masks = None\<rparr>
 \<and> str_in ''SSD'' ''SSDLite''
 \<and> check_model
      \<lparr>y_arch = Some ''SSDLite'', y_Preprocess = Some ([] :: unit op_info list),
       y_use_python_inference = Some False, y_min_subgraph_size = Some 3,
       y_label_list = Some [''digit''], y_mask_resolution = None, y_with_lmk = None\<rparr>
     = Inr True
 \<and> create_inputs (0 :: nat)
      \<lparr>origin_shape = (480, 640), resize_shape = (300, 300), pad_shape = None,
       scale = (5 / 8, 15 / 32)\<rparr> ''SSDLite''
     = create_inputs (0 :: nat)
      \<lparr>origin_shape = (480, 640), resize_shape = (300, 300), pad_shape = None,
       scale = (5 / 8, 15 / 32)\<rparr> ''SSD''
 \<and> snd (postprocess
      \<lparr>arch = ''SSDLite'', preprocess_infos = ([] :: unit op_info list),
       use_python_inference = False, min_subgraph_size = 3, labels = [''digit''],
       mask_resolution = None, with_lmk = None\<rparr>
      (\<lambda>b k info t. Inl ExternalError :: error + unit)
      \<lparr>np_boxes = \<lparr>ncols = 6, rows = [[0, 3 / 4, 1 / 8, 1 / 4, 3 / 8, 1 / 2]]\<rparr>,
       np_masks = (None :: string list option)\<rparr>
      (None :: unit option)
      \<lparr>origin_shape = (480, 640), resize_shape = (300, 300), pad_shape = None,
       scale = (5 / 8, 15 / 32)\<rparr>
      (1 / 2))
   = Inr \<lparr>landmark = None,
          boxes = \<lparr>ncols = 6, rows = [[0, 3 / 4, 1 / 8, 1 / 4, 3 / 8, 1 / 2]]\<rparr>,
          masks = None\<rparr>"
  by (simp add: check_model_def SUPPORT_MODELS_def subscript_def create_inputs_def
      postprocess_def imul_column_def column_def take_rows_def logical_and_def greater_def
      to_float32_half to_float32_minus_one print_boxes_def Let_def)

subsection \<open>No detection\<close>

text \<open>
  Claim C3. For a raw boxes array in which every row has the class id \<open>-1\<close>, of the
  documented six columns (or more) or with fewer than six elements in all, and for every
  threshold, \<^verbatim>\<open>predict\<close> outside benchmark mode returns, without raising, a result
  whose \<^verbatim>\<open>boxes\<close> entry has no rows. (A masks tensor, if any, has one entry per
  raw row, and the landmark decoder, if called, does not raise.)
\<close>

theorem predict_results_all_sentinel:
  fixes lmk2out :: "ndarray \<Rightarrow> 'k \<Rightarrow> im_info \<Rightarrow> real \<Rightarrow> error + 'l"
    and masks_opt :: "'m list option"
    and config :: "'p config"
  assumes wf: "wf_ndarray b"
    and sentinel: "\<forall>r \<in> set (rows b). r ! 0 = - 1"
    and shape: "length (rows b) * ncols b < 6 \<or> 6 \<le> ncols b"
    and ms: "\<forall>ms. masks_opt = Some ms \<longrightarrow> length ms = length (rows b)"
    and lmk: "\<forall>k. np_lmk = Some k \<longrightarrow> (\<exists>l. lmk2out b k info t = Inr l)"
  shows "\<exists>r. predict_results config lmk2out (Some b) masks_opt np_lmk info t False = Inr r
           \<and> result_boxes r = Some []"
proof (cases "length (rows b) * ncols b < 6")
  case True
  then show ?thesis by (simp add: predict_results_def)
next
  case False
  with shape have cols: "6 \<le> ncols b" by simp
  obtain lm where lm: "(np_lmk = None \<and> lm = None) \<or>
      (\<exists>k l. np_lmk = Some k \<and> lmk2out b k info t = Inr l \<and> lm = Some l)"
    using lmk by (rule lmk_cases)
  define sb where "sb = (if arch config = ''SSD'' \<or> arch config = ''Face''
                   then b\<lparr>rows := map (\<lambda>r. r[2 := r ! 2 * of_int (snd (origin_shape info)),
                                              3 := r ! 3 * of_int (fst (origin_shape info)),
                                              4 := r ! 4 * of_int (snd (origin_shape info)),
                                              5 := r ! 5 * of_int (fst (origin_shape info))])
                                     (rows b)\<rparr>
                   else b)"
  define sel where "sel = logical_and (greater (map (\<lambda>r. r ! 1) (rows b)) t)
                                (greater (map (\<lambda>r. r ! 0) (rows b)) (- 1))"
  have empty: "filter fst (zip sel (rows sb)) = []"
    unfolding sel_def using sentinel by (rule expect_boxes_sentinel)
  have "postprocess config lmk2out \<lparr>np_boxes = b, np_masks = masks_opt\<rparr> np_lmk info t =
     (\<lparr>np_boxes = sb, np_masks = masks_opt\<rparr>,
      Inr \<lparr>landmark = lm,
           boxes = \<lparr>ncols = ncols b, rows = map snd (filter fst (zip sel (rows sb)))\<rparr>,
           masks = map_option (\<lambda>ms. map snd (filter fst (zip sel ms))) masks_opt\<rparr>)"
    using cols ms lm sb_def sel_def by (rule postprocess_returns)
  with False empty show ?thesis
    by (simp add: predict_results_def)
qed

theorem predict_results_all_sentinel_witness:
  "predict_results
      \<lparr>arch = ''YOLO'', preprocess_infos = ([] :: unit op_info list),
       use_python_inference = False, min_subgraph_size = 3, labels = [''digit''],
       mask_resolution = None, with_lmk = None\<rparr>
      (\<lambda>b k info t. Inl ExternalError :: error + unit)
      (Some \<lparr>ncols = 6, rows = [[- 1, 9 / 10, 10, 20, 30, 40], [- 1, 0, 0, 0, 0, 0]]\<rparr>)
      (None :: string list option) (None :: unit option)
      \<lparr>origin_shape = (480, 640), resize_shape = (608, 608), pad_shape = None,
       scale = (19 / 20, 19 / 15)\<rparr>
      (1 / 2) False
   = Inr (Results \<lparr>landmark = None, boxes = \<lparr>ncols = 6, rows = []\<rparr>, masks = None\<rparr>)
 \<and> predict_results
      \<lparr>arch = ''YOLO'', preprocess_infos = ([] :: unit op_info list),
       use_python_inference = False, min_subgraph_size = 3, labels = [''digit''],
       mask_resolution = None, with_lmk = None\<rparr>
      (\<lambda>b k info t. Inl ExternalError :: error + unit)
      (Some \<lparr>ncols = 1, rows = [[- 1]]\<rparr>)
      (None :: string list option) (None :: unit option)
      \<lparr>origin_shape = (480, 640), resize_shape = (608, 608), pad_shape = None,
       scale = (19 / 20, 19 / 15)\<rparr>
      (1 / 2) False
   = Inr EmptyBoxes"
  using
    predict_results_all_sentinel [of
      "\<lparr>ncols = 6, rows = [[- 1, 9 / 10, 10, 20, 30, 40], [- 1, 0, 0, 0, 0, 0]]\<rparr>"
      "None :: string list option" "None :: unit option"
      "\<lambda>b k info t. Inl ExternalError :: error + unit"
      "\<lparr>origin_shape = (480, 640), resize_shape = (608, 608), pad_shape = None,
       scale = (19 / 20, 19 / 15)\<rparr>"
      "1 / 2"
      "\<lparr>arch = ''YOLO'', preprocess_infos = ([] :: unit op_info list),
       use_python_inference = False, min_subgraph_size = 3, labels = [''digit''],
       mask_resolution = None, with_lmk = None\<rparr>"]
    predict_results_all_sentinel [of
      "\<lparr>ncols = 1, rows = [[- 1]]\<rparr>"
      "None :: string list option" "None :: unit option"
      "\<lambda>b k info t. Inl ExternalError :: error + unit"
      "\<lparr>origin_shape = (480, 640), resize_shape = (608, 608), pad_shape = None,
       scale = (19 / 20, 19 / 15)\<rparr>"
      "1 / 2"
      "\<lparr>arch = ''YOLO'', preprocess_infos = ([] :: unit op_info list),
       use_python_inference = False, min_subgraph_size = 3, labels = [''digit''],
       mask_resolution = None, with_lmk = None\<rparr>"]
  by (simp add: wf_ndarray_def predict_results_def postprocess_def column_def take_rows_def
      logical_and_def greater_def to_float32_half to_float32_minus_one print_boxes_def Let_def)

section \<open>Properties of the backends\<close>

subsection \<open>Construction\<close>

text \<open>
  Claim C6, as amended. When the configuration selects the predictor backend
  (\<^verbatim>\<open>use_python_inference\<close> is false), the construction of the detector raises
  \<^verbatim>\<open>ValueError\<close>, before any image is seen, whenever a run mode other than
  \<^verbatim>\<open>fluid\<close> is requested without the GPU or the run mode is \<^verbatim>\<open>trt_int8\<close>;
  with the GPU, the modes \<^verbatim>\<open>trt_fp32\<close> and \<^verbatim>\<open>trt_fp16\<close> enable the TensorRT
  engine in exactly the requested precision. When the configuration selects the
  executor backend, the run mode is not looked at and the construction succeeds.
\<close>

theorem Detector_init_run_mode:
  fixes config :: "'p config"
  shows "(\<not> use_python_inference config \<and>
          ((\<not> use_gpu \<and> run_mode \<noteq> ''fluid'') \<or> run_mode = ''trt_int8'') \<longrightarrow>
            Detector_init config use_gpu run_mode = Inl ValueError)
   \<and> (\<not> use_python_inference config \<and> use_gpu \<and>
          (run_mode = ''trt_fp32'' \<or> run_mode = ''trt_fp16'') \<longrightarrow>
            Detector_init config use_gpu run_mode =
              Inr (Predictor
                [Enable_use_gpu 100 0, Switch_ir_optim True,
                 Enable_tensorrt_engine
                   \<lparr>workspace_size = 1024, max_batch_size = 1,
                    trt_min_subgraph_size = min_subgraph_size config,
                    precision_mode = (if run_mode = ''trt_fp32'' then Precision_Float32
                                      else Precision_Half),
                    use_static = False, use_calib_mode = False\<rparr>,
                 Disable_glog_info, Enable_memory_optim, Switch_use_feed_fetch_ops False]))
   \<and> (use_python_inference config \<longrightarrow>
          Detector_init config use_gpu run_mode =
            Inr (Executor (if use_gpu then CUDAPlace 0 else CPUPlace)))"
  by (auto simp: Detector_init_def load_predictor_def load_executor_def precision_map_def)

theorem Detector_init_run_mode_witness:
  "Detector_init
      \<lparr>arch = ''YOLO'', preprocess_infos = ([] :: unit op_info list),
       use_python_inference = False, min_subgraph_size = 3, labels = [''digit''],
       mask_resolution = None, with_lmk = None\<rparr> False ''trt_fp16'' = Inl ValueError
 \<and> Detector_init
      \<lparr>arch = ''YOLO'', preprocess_infos = ([] :: unit op_info list),
       use_python_inference = False, min_subgraph_size = 3, labels = [''digit''],
       mask_resolution = None, with_lmk = None\<rparr> True ''trt_int8'' = Inl ValueError
 \<and> Detector_init
      \<lparr>arch = ''YOLO'', preprocess_infos = ([] :: unit op_info list),
       use_python_inference = False, min_subgraph_size = 3, labels = [''digit''],
       mask_resolution = None, with_lmk = None\<rparr> True ''trt_fp16'' =
     Inr (Predictor
       [Enable_use_gpu 100 0, Switch_ir_optim True,
        Enable_tensorrt_engine
          \<lparr>workspace_size = 1024, max_batch_size = 1, trt_min_subgraph_size = 3,
           precision_mode = Precision_Half, use_static = False, use_calib_mode = False\<rparr>,
        Disable_glog_info, Enable_memory_optim, Switch_use_feed_fetch_ops False])
 \<and> Detector_init
      \<lparr>arch = ''YOLO'', preprocess_infos = ([] :: unit op_info list),
       use_python_inference = True, min_subgraph_size = 3, labels = [''digit''],
       mask_resolution = None, with_lmk = None\<rparr> True ''fluid'' = Inr (Executor (CUDAPlace 0))"
  using
    Detector_init_run_mode [of
      "\<lparr>arch = ''YOLO'', preprocess_infos = ([] :: unit op_info list),
       use_python_inference = False, min_subgraph_size = 3, labels = [''digit''],
       mask_resolution = None, with_lmk = None\<rparr>" False "''trt_fp16''"]
    Detector_init_run_mode [of
      "\<lparr>arch = ''YOLO'', preprocess_infos = ([] :: unit op_info list),
       use_python_inference = False, min_subgraph_size = 3, labels = [''digit''],
       mask_resolution = None, with_lmk = None\<rparr>" True "''trt_int8''"]
    Detector_init_run_mode [of
      "\<lparr>arch = ''YOLO'', preprocess_infos = ([] :: unit op_info list),
       use_python_inference = False, min_subgraph_size = 3, labels = [''digit''],
       mask_resolution = None, with_lmk = None\<rparr>" True "''trt_fp16''"]
    Detector_init_run_mode [of
      "\<lparr>arch = ''YOLO'', preprocess_infos = ([] :: unit op_info list),
       use_python_inference = True, min_subgraph_size = 3, labels = [''digit''],
       mask_resolution = None, with_lmk = None\<rparr>" True "''fluid''"]
  by simp

text \<open>
  The claim C6 as stated fails: with the executor backend, the modes \<^verbatim>\<open>trt_fp16\<close>
  and \<^verbatim>\<open>trt_int8\<close> without the GPU construct a plain CPU executor and raise nothing.
\<close>

theorem Detector_init_executor_counterexample:
  "Detector_init
      \<lparr>arch = ''YOLO'', preprocess_infos = ([] :: unit op_info list),
       use_python_inference = True, min_subgraph_size = 3, labels = [''digit''],
       mask_resolution = None, with_lmk = None\<rparr> False ''trt_fp16'' = Inr (Executor CPUPlace)
 \<and> Detector_init
      \<lparr>arch = ''YOLO'', preprocess_infos = ([] :: unit op_info list),
       use_python_inference = True, min_subgraph_size = 3, labels = [''digit''],
       mask_resolution = None, with_lmk = None\<rparr> False ''trt_int8'' = Inr (Executor CPUPlace)"
  by (simp add: Detector_init_def load_executor_def)

subsection \<open>Fetching masks and landmarks\<close>

lemma executor_loop_eq:
  "executor_loop n run_outs outs = (if n = 0 then outs else Some run_outs)"
  by (induction n arbitrary: outs) simp_all

lemma predict_executor_no_landmark:
  "predict_executor config outs warmup repeats = Inr vars \<Longrightarrow> raw_lmk vars = None"
  by (auto simp: predict_executor_def Let_def split: if_splits option.splits sum.splits)

lemma fetch_outputs_landmark:
  assumes "fetch_outputs config outs vars = Inr vars'" and "with_lmk config = Some True"
  shows "raw_lmk vars' = Some (outs ! 1, outs ! 2, outs ! 3)"
  using assms
  by (auto simp: fetch_outputs_def item_def Let_def map_sum_def split: if_splits sum.splits)

lemma predictor_loop_landmark:
  assumes "predictor_loop n config outs vars = Inr vars'" and "with_lmk config = Some True"
    and "0 < n"
  shows "raw_lmk vars' = Some (outs ! 1, outs ! 2, outs ! 3)"
  using assms
proof (induction n arbitrary: vars)
  case 0
  then show ?case by simp
next
  case (Suc n)
  then obtain v where v: "fetch_outputs config outs vars = Inr v"
    and rest: "predictor_loop n config outs v = Inr vars'"
    by (auto split: sum.splits)
  show ?case
  proof (cases n)
    case 0
    with rest have "vars' = v" by simp
    with v Suc.prems(2) show ?thesis by (simp add: fetch_outputs_landmark)
  next
    case (Suc m)
    with rest Suc.IH Suc.prems(2) show ?thesis by simp
  qed
qed

lemma predict_predictor_landmark:
  assumes "predict_predictor config outs warmup repeats = Inr vars"
    and "with_lmk config = Some True" and "0 < repeats"
  shows "raw_lmk vars = Some (outs ! 1, outs ! 2, outs ! 3)"
proof -
  from assms(1) obtain v where loop: "predictor_loop (nat repeats) config outs v = Inr vars"
    by (auto simp: predict_predictor_def split: sum.splits if_splits)
  have pos: "0 < nat repeats" using assms(3) by simp
  show ?thesis by (rule predictor_loop_landmark [OF loop assms(2) pos])
qed

lemma fetch_outputs_masks:
  assumes "fetch_outputs config outs vars = Inr vars'"
  shows "raw_boxes vars' = Some (outs ! 0)
       \<and> raw_masks vars' =
           (if mask_resolution config = None then raw_masks vars else Some (outs ! 1))"
  using assms
  by (auto simp: fetch_outputs_def item_def Let_def map_sum_def split: if_splits sum.splits)

lemma predictor_loop_masks:
  assumes "predictor_loop n config outs vars = Inr vars'"
  shows "raw_masks vars' =
           (if mask_resolution config = None \<or> n = 0 then raw_masks vars else Some (outs ! 1))
       \<and> raw_boxes vars' = (if n = 0 then raw_boxes vars else Some (outs ! 0))"
  using assms
proof (induction n arbitrary: vars)
  case 0
  then show ?case by simp
next
  case (Suc n)
  then obtain v where v: "fetch_outputs config outs vars = Inr v"
    and rest: "predictor_loop n config outs v = Inr vars'"
    by (auto split: sum.splits)
  from fetch_outputs_masks [OF v] Suc.IH [OF rest] show ?case by auto
qed

lemma predict_fetch_masks:
  assumes "predict_fetch config outs warmup repeats = Inr vars" and "0 < repeats"
  shows "raw_boxes vars = Some (outs ! 0)
       \<and> raw_masks vars = (if mask_resolution config = None then None else Some (outs ! 1))"
proof (cases "use_python_inference config")
  case True
  with assms show ?thesis
    by (auto simp: predict_fetch_def predict_executor_def executor_loop_eq item_def Let_def
        split: if_splits option.splits sum.splits)
next
  case False
  with assms(1) obtain v where
    w: "predictor_loop (nat warmup) config outs
          \<lparr>raw_boxes = None, raw_masks = None, raw_lmk = None\<rparr> = Inr v"
    and r: "predictor_loop (nat repeats) config outs v = Inr vars"
    by (auto simp: predict_fetch_def predict_predictor_def split: sum.splits if_splits)
  have "nat repeats \<noteq> 0" using assms(2) by simp
  with predictor_loop_masks [OF w] predictor_loop_masks [OF r] show ?thesis by auto
qed

text \<open>
  Claim C7 says that, for a fixed configuration, whether the masks and the landmark
  triple are fetched depends on the flags \<^verbatim>\<open>mask_resolution\<close> and
  \<^verbatim>\<open>with_lmk\<close> only and not on the backend. For the masks this holds
  (\<open>predict_fetch_masks\<close>). For the landmarks it does not: with \<^verbatim>\<open>with_lmk\<close>
  true and the same four output tensors, the predictor branch fetches the landmark
  triple and the executor branch leaves \<^verbatim>\<open>np_lmk\<close> at \<^verbatim>\<open>None\<close>
  (in general: \<open>predict_predictor_landmark\<close>, \<open>predict_executor_no_landmark\<close>).
\<close>

theorem predict_fetch_landmark_by_backend:
  "predict_fetch
      \<lparr>arch = ''Face'', preprocess_infos = ([] :: unit op_info list),
       use_python_inference = False, min_subgraph_size = 3, labels = [''face''],
       mask_resolution = None, with_lmk = Some True\<rparr>
      [''boxes'', ''face_index'', ''landmark'', ''prior_boxes''] 0 1
   = Inr \<lparr>raw_boxes = Some ''boxes'', raw_masks = None,
          raw_lmk = Some (''face_index'', ''landmark'', ''prior_boxes'')\<rparr>
 \<and> predict_fetch
      \<lparr>arch = ''Face'', preprocess_infos = ([] :: unit op_info list),
       use_python_inference = True, min_subgraph_size = 3, labels = [''face''],
       mask_resolution = None, with_lmk = Some True\<rparr>
      [''boxes'', ''face_index'', ''landmark'', ''prior_boxes''] 0 1
   = Inr \<lparr>raw_boxes = Some ''boxes'', raw_masks = None, raw_lmk = None\<rparr>"
  by (simp add: predict_fetch_def predict_predictor_def predict_executor_def fetch_outputs_def
      item_def Let_def)

text \<open>
  With both flags set, the predictor branch reads the masks and the first tensor of the
  landmark triple from the same output 1.
\<close>

lemma predict_fetch_masks_and_landmark_share_output:
  "predict_fetch
      \<lparr>arch = ''Face'', preprocess_infos = ([] :: unit op_info list),
       use_python_inference = False, min_subgraph_size = 3, labels = [''face''],
       mask_resolution = Some 14, with_lmk = Some True\<rparr>
      [''out0'', ''out1'', ''out2'', ''out3'', ''out4''] 0 1
   = Inr \<lparr>raw_boxes = Some ''out0'', raw_masks = Some ''out1'',
          raw_lmk = Some (''out1'', ''out2'', ''out3'')\<rparr>"
  by (simp add: predict_fetch_def predict_predictor_def fetch_outputs_def item_def Let_def)

subsection \<open>The SOLOv2 detector\<close>

lemma solov2_predictor_loop_eq:
  assumes "3 \<le> length outs"
  shows "solov2_predictor_loop n outs vars =
     Inr (if n = 0 then vars
          else \<lparr>np_label = Some (outs ! 0), np_score = Some (outs ! 1),
                np_segms = Some (outs ! 2)\<rparr>)"
  using assms
  by (induction n arbitrary: vars) (auto simp: solov2_fetch_outputs_def item_def)

text \<open>
  Claim C9. \<^verbatim>\<open>DetectorSOLOv2.predict\<close> returns the same result for every
  threshold, and after at least one timed run of a model with three outputs it
  returns, outside benchmark mode, the dictionary of the raw arrays as fetched:
  \<^verbatim>\<open>segm\<close> is output 2, \<^verbatim>\<open>label\<close> output 0 and \<^verbatim>\<open>score\<close> output 1,
  with no filtering by score or by sentinel.
\<close>

theorem DetectorSOLOv2_predict_unfiltered:
  fixes config :: "'p config"
  shows "DetectorSOLOv2_predict config outs t warmup repeats run_benchmark
       = DetectorSOLOv2_predict config outs t' warmup repeats run_benchmark
   \<and> (0 < repeats \<and> 3 \<le> length outs \<longrightarrow>
        DetectorSOLOv2_predict config outs t warmup repeats False
          = Inr (SOLOv2_dict (Some (outs ! 2)) (Some (outs ! 0)) (Some (outs ! 1))))"
  by (auto simp: DetectorSOLOv2_predict_def solov2_executor_def solov2_predictor_def
      executor_loop_eq solov2_predictor_loop_eq item_def Let_def)

theorem DetectorSOLOv2_predict_unfiltered_witness:
  "DetectorSOLOv2_predict
      \<lparr>arch = ''SOLOv2'', preprocess_infos = ([] :: unit op_info list),
       use_python_inference = False, min_subgraph_size = 3, labels = [''digit''],
       mask_resolution = None, with_lmk = None\<rparr>
      [''label'', ''score'', ''segm''] (1 / 2) 0 1 False
   = Inr (SOLOv2_dict (Some ''segm'') (Some ''label'') (Some ''score''))
 \<and> DetectorSOLOv2_predict
      \<lparr>arch = ''SOLOv2'', preprocess_infos = ([] :: unit op_info list),
       use_python_inference = False, min_subgraph_size = 3, labels = [''digit''],
       mask_resolution = None, with_lmk = None\<rparr>
      [''label'', ''score'', ''segm''] (99 / 100) 0 1 False
   = Inr (SOLOv2_dict (Some ''segm'') (Some ''label'') (Some ''score''))"
  using
    DetectorSOLOv2_predict_unfiltered [of
      "\<lparr>arch = ''SOLOv2'', preprocess_infos = ([] :: unit op_info list),
       use_python_inference = False, min_subgraph_size = 3, labels = [''digit''],
       mask_resolution = None, with_lmk = None\<rparr>"
      "[''label'', ''score'', ''segm'']" "1 / 2" 0 1 False "99 / 100"]
    DetectorSOLOv2_predict_unfiltered [of
      "\<lparr>arch = ''SOLOv2'', preprocess_infos = ([] :: unit op_info list),
       use_python_inference = False, min_subgraph_size = 3, labels = [''digit''],
       mask_resolution = None, with_lmk = None\<rparr>"
      "[''label'', ''score'', ''segm'']" "99 / 100" 0 1 False "1 / 2"]
  by simp

end
